theory Spec2Isabelle
  imports Complex_Main "HOL-Library.Log_Nat"
begin

section \<open>Python values\<close>

text \<open>
  Exceptions are values: the class and the message (\<open>str(exc)\<close>). The classes are the
  ones the modelled code raises or tells apart; \<open>OtherException\<close> stands for any other
  subclass of \<open>Exception\<close> that a collaborator may raise.
\<close>

datatype exn_class = ValueError | KeyError | TypeError | AttributeError | OverflowError
  | RuntimeError | VideoTooLongError | YouTubeForbiddenError | YouTubeInfoError
  | OtherException

datatype exn = Exn exn_class string

text \<open>
  A Python \<open>str\<close> is modelled as a \<open>string\<close>, each character a code point below 256.
  \<open>isspace\<close> is \<open>str.isspace\<close> on those code points, \<open>strip\<close> is \<open>str.strip()\<close>,
  \<open>join\<close> is \<open>sep.join(list)\<close>, \<open>str_int\<close> is \<open>str(i)\<close> on an integer and
  \<open>zero_pad w\<close> is the format \<open>{i:0wd}\<close>.
\<close>

definition isspace :: "char \<Rightarrow> bool" where
  "isspace c = (of_char c \<in> {9, 10, 11, 12, 13, 28, 29, 30, 31, 32, 133, 160 :: nat})"

definition strip :: "string \<Rightarrow> string" where
  "strip s = rev (dropWhile isspace (rev (dropWhile isspace s)))"

fun join :: "string \<Rightarrow> string list \<Rightarrow> string" where
  "join sep [] = []"
| "join sep [x] = x"
| "join sep (x # y # rest) = x @ sep @ join sep (y # rest)"

definition digit_char :: "nat \<Rightarrow> char" where
  "digit_char d = ''0123456789'' ! d"

fun str_nat :: "nat \<Rightarrow> string" where
  "str_nat n = (if n < 10 then [digit_char n] else str_nat (n div 10) @ [digit_char (n mod 10)])"

declare str_nat.simps [simp del]

definition str_int :: "int \<Rightarrow> string" where
  "str_int i = (if i < 0 then CHR ''-'' # str_nat (nat (- i)) else str_nat (nat i))"

definition zero_pad :: "nat \<Rightarrow> int \<Rightarrow> string" where
  "zero_pad width i =
     (if i < 0 then CHR ''-'' # replicate (width - 1 - length (str_nat (nat (- i)))) CHR ''0''
                     @ str_nat (nat (- i))
      else replicate (width - length (str_nat (nat i))) CHR ''0'' @ str_nat (nat i))"

text \<open>\<open>int(x)\<close> on a float truncates toward zero.\<close>

definition py_int :: "real \<Rightarrow> int" where
  "py_int x = (if 0 \<le> x then \<lfloor>x\<rfloor> else \<lceil>x\<rceil>)"

text \<open>\<open>needle in haystack\<close> on strings.\<close>

fun contains :: "string \<Rightarrow> string \<Rightarrow> bool" where
  "contains needle [] = (needle = [])"
| "contains needle (c # cs) =
     (take (length needle) (c # cs) = needle \<or> contains needle cs)"


section \<open>Python floats\<close>

text \<open>
  A Python \<open>float\<close> is an IEEE 754 binary64 number. A finite float is modelled by the real
  number it denotes, and an arithmetic operation on floats returns the exact result
  rounded to the nearest binary64 number, ties to the even significand:
  \<open>float_exponent x\<close> is the exponent \<open>e\<close> with \<open>2^e \<le> |x| < 2^(e+1)\<close>, and the floats
  around \<open>x\<close> are the multiples of \<open>2^(e-52)\<close>, or of \<open>2^-1074\<close> in the subnormal range.
  Infinities and NaN are not modelled. The true division of two integers is rounded the
  same way. An \<open>int\<close> of magnitude below \<open>2^53\<close> used as a time is its own float, and the
  difference of two such integers is exact in Python as it is here.
\<close>

definition round_half_even :: "real \<Rightarrow> int" where
  "round_half_even x =
     (let f = \<lfloor>x\<rfloor>; d = x - of_int f
      in if d < 1 / 2 then f else if 1 / 2 < d then f + 1 else if even f then f else f + 1)"

definition float_exponent :: "real \<Rightarrow> int" where
  "float_exponent x =
     (if 1 \<le> \<bar>x\<bar> then bitlen \<lfloor>\<bar>x\<bar>\<rfloor> - 1 else - bitlen (\<lceil>1 / \<bar>x\<bar>\<rceil> - 1))"

definition fl :: "real \<Rightarrow> real" where
  "fl x =
     (if x = 0 then 0
      else let q = 2 powi (max (float_exponent x) (- 1022) - 52)
           in of_int (round_half_even (x / q)) * q)"

definition float_sub :: "real \<Rightarrow> real \<Rightarrow> real" where
  "float_sub a b = fl (a - b)"

definition float_mul :: "real \<Rightarrow> real \<Rightarrow> real" where
  "float_mul a b = fl (a * b)"

definition int_truediv :: "int \<Rightarrow> int \<Rightarrow> real" where
  "int_truediv a b = fl (of_int a / of_int b)"


section \<open>Task store (app/db/repositories.py)\<close>

text \<open>
  A row of the table \<open>tasks\<close> (app/db/models.py). The columns \<open>created_at\<close> and
  \<open>updated_at\<close> are filled in by the database server and are left out. The nullable
  columns are options; \<open>None\<close> is SQL NULL.
\<close>

record task =
  task_id :: int
  user_id :: int
  video_url :: string
  status :: string
  error :: "string option"
  language :: "string option"
  duration_sec :: "int option"

record result =
  result_task_id :: int
  transcript_text :: string
  subtitles_srt :: "string option"
  summary :: string
  outline :: string

text \<open>The session: the two tables, keyed by their primary keys.\<close>

record session =
  tasks :: "int \<rightharpoonup> task"
  results :: "int \<rightharpoonup> result"

definition TERMINAL_STATUSES :: "string set" where
  "TERMINAL_STATUSES = {''completed'', ''failed''}"

definition get_task :: "session \<Rightarrow> int \<Rightarrow> task option" where
  "get_task s tid = tasks s tid"

text \<open>
  \<open>set_status\<close> returns the task it hands back to the caller (\<open>None\<close> when the row does
  not exist) together with the session after the call.
\<close>

definition set_status ::
  "session \<Rightarrow> int \<Rightarrow> string \<Rightarrow> string option \<Rightarrow> string option \<Rightarrow> int option
     \<Rightarrow> task option \<times> session" where
  "set_status s tid new_status err lang dur =
     (case tasks s tid of
        None \<Rightarrow> (None, s)
      | Some t \<Rightarrow>
          if status t \<in> TERMINAL_STATUSES \<and> new_status \<notin> TERMINAL_STATUSES then (Some t, s)
          else
            let t1 = t\<lparr>status := new_status\<rparr>;
                t2 = (case err of None \<Rightarrow> t1 | Some e \<Rightarrow> t1\<lparr>error := Some e\<rparr>);
                t3 = (case lang of None \<Rightarrow> t2 | Some l \<Rightarrow> t2\<lparr>language := Some l\<rparr>);
                t4 = (case dur of None \<Rightarrow> t3 | Some d \<Rightarrow> t3\<lparr>duration_sec := Some d\<rparr>)
            in (Some t4, s\<lparr>tasks := (tasks s)(tid \<mapsto> t4)\<rparr>))"

definition upsert_result ::
  "session \<Rightarrow> int \<Rightarrow> string \<Rightarrow> string \<Rightarrow> string \<Rightarrow> string option \<Rightarrow> result \<times> session" where
  "upsert_result s tid transcript summ outl srt =
     (let r = (case results s tid of
                 Some r0 \<Rightarrow> r0\<lparr>transcript_text := transcript, summary := summ,
                               outline := outl, subtitles_srt := srt\<rparr>
               | None \<Rightarrow> \<lparr>result_task_id = tid, transcript_text = transcript,
                           subtitles_srt = srt, summary = summ, outline = outl\<rparr>)
      in (r, s\<lparr>results := (results s)(tid \<mapsto> r)\<rparr>))"

text \<open>A task that has failed, used as a concrete stored row below.\<close>

definition failed_task :: task where
  "failed_task = \<lparr>task_id = 1, user_id = 7, video_url = ''https://youtu.be/dQw4w9WgXcQ'',
     status = ''failed'', error = Some ''boom'', language = None, duration_sec = None\<rparr>"

definition failed_session :: session where
  "failed_session = \<lparr>tasks = [1 \<mapsto> failed_task], results = Map.empty\<rparr>"

definition running_task :: task where
  "running_task = \<lparr>task_id = 2, user_id = 7, video_url = ''https://youtu.be/dQw4w9WgXcQ'',
     status = ''downloading'', error = Some ''earlier'', language = None, duration_sec = None\<rparr>"

definition running_session :: session where
  "running_session = \<lparr>tasks = [2 \<mapsto> running_task], results = Map.empty\<rparr>"


section \<open>Segments and chunking (app/utils/chunking.py)\<close>

text \<open>
  \<open>TranscriptSegment\<close>. The times are Python floats, and the difference taken in the
  chunking loop is the float difference \<open>float_sub\<close>, rounded as the interpreter rounds
  it; it is compared with the integer \<open>max_seconds\<close> exactly.
\<close>

record segment =
  seg_start :: real
  seg_end :: real
  seg_text :: string

text \<open>
  The \<open>for\<close> loop of \<open>chunk_segments_by_minutes\<close>: the state is the list of closed
  chunks, the current chunk and the start time of the current chunk.
\<close>

fun chunk_loop ::
  "real \<Rightarrow> segment list list \<Rightarrow> segment list \<Rightarrow> real \<Rightarrow> segment list
     \<Rightarrow> segment list list \<times> segment list" where
  "chunk_loop max_seconds chunks current chunk_start [] = (chunks, current)"
| "chunk_loop max_seconds chunks current chunk_start (sg # rest) =
     (if current \<noteq> [] \<and> float_sub (seg_end sg) chunk_start > max_seconds
      then chunk_loop max_seconds (chunks @ [current]) [sg] (seg_start sg) rest
      else chunk_loop max_seconds chunks (current @ [sg]) chunk_start rest)"

text \<open>Lines 30 to 33: the chunk still open when the loop ends is emitted too.\<close>

definition close_last :: "segment list list \<times> segment list \<Rightarrow> segment list list" where
  "close_last p = (if snd p \<noteq> [] then fst p @ [snd p] else fst p)"

definition chunk_segments_by_minutes :: "segment list \<Rightarrow> int \<Rightarrow> segment list list" where
  "chunk_segments_by_minutes segments minutes =
     (case segments of
        [] \<Rightarrow> []
      | first # _ \<Rightarrow>
          let max_seconds = real_of_int (minutes * 60)
          in close_last (chunk_loop max_seconds [] [] (seg_start first) segments))"

text \<open>
  Two properties of a chunk list, used to state what the loop guarantees, both in terms
  of the difference the loop computes: within a run, every segment after the first ends
  no later than the limit after the run's start; and each run begins with a segment that
  ends more than the limit after the start of the run before it (\<open>heads_apart\<close> on the
  first segments of the runs).
\<close>

definition run_within :: "real \<Rightarrow> segment list \<Rightarrow> bool" where
  "run_within m c = (\<forall>sg \<in> set (tl c). float_sub (seg_end sg) (seg_start (hd c)) \<le> m)"

fun heads_apart :: "real \<Rightarrow> segment list \<Rightarrow> bool" where
  "heads_apart m (a # b # rest) =
     (float_sub (seg_end b) (seg_start a) > m \<and> heads_apart m (b # rest))"
| "heads_apart m _ = True"

definition part1 :: segment where
  "part1 = \<lparr>seg_start = 0, seg_end = 100, seg_text = ''part1''\<rparr>"

definition part2 :: segment where
  "part2 = \<lparr>seg_start = 101, seg_end = 400, seg_text = ''part2''\<rparr>"

definition part3 :: segment where
  "part3 = \<lparr>seg_start = 800, seg_end = 900, seg_text = ''part3''\<rparr>"

text \<open>
  Two segments timed in tenths of a second, as floats: \<open>0.1\<close> and \<open>600.1\<close> denote the
  floats nearest to them.
\<close>

definition tenth_a :: segment where
  "tenth_a = \<lparr>seg_start = fl 0.1, seg_end = 1, seg_text = ''a''\<rparr>"

definition tenth_b :: segment where
  "tenth_b = \<lparr>seg_start = 1, seg_end = fl 600.1, seg_text = ''b''\<rparr>"


section \<open>Exports (app/utils/exports.py)\<close>

text \<open>
  \<open>timedelta(seconds=x)\<close> for a float \<open>x\<close>, as the whole number of microseconds it
  holds. The constructor splits \<open>x\<close> into its integer and fractional parts (exactly),
  multiplies the fractional part by \<open>10^6\<close> in float arithmetic, and rounds the sum of
  the two microsecond counts to the nearest integer, ties to even; it raises
  \<open>OverflowError\<close> when the magnitude of the days exceeds 999999999.
\<close>

definition timedelta :: "real \<Rightarrow> exn + int" where
  "timedelta seconds =
     (let intpart = py_int seconds;
          fracpart = seconds - of_int intpart;
          us = round_half_even (of_int (intpart * 1000000) + float_mul 1000000 fracpart)
      in if \<bar>us div 86400000000\<bar> > 999999999
         then Inl (Exn OverflowError ''days out of range'')
         else Inr us)"

text \<open>
  Lines 22 to 25 of \<open>_format_srt_ts\<close>: \<open>delta.total_seconds()\<close> is the true division of
  the microsecond count by \<open>10^6\<close>, a float; its product with 1000 is a float product,
  which \<open>int\<close> cuts toward zero.
\<close>

definition srt_total_ms :: "real \<Rightarrow> exn + int" where
  "srt_total_ms seconds =
     (let seconds = (if seconds < 0 then 0 else seconds)
      in case timedelta seconds of
           Inl e \<Rightarrow> Inl e
         | Inr us \<Rightarrow> Inr (py_int (float_mul (int_truediv us 1000000) 1000)))"

text \<open>Lines 26 to 30 of \<open>_format_srt_ts\<close>: the clock text of a millisecond count.\<close>

definition srt_clock :: "int \<Rightarrow> string" where
  "srt_clock total_ms =
     (let hours = total_ms div 3600000;
          minutes = (total_ms mod 3600000) div 60000;
          secs = (total_ms mod 60000) div 1000;
          millis = total_ms mod 1000
      in zero_pad 2 hours @ '':'' @ zero_pad 2 minutes @ '':'' @ zero_pad 2 secs
           @ '','' @ zero_pad 3 millis)"

definition format_srt_ts :: "real \<Rightarrow> exn + string" where
  "format_srt_ts seconds =
     (case srt_total_ms seconds of
        Inl e \<Rightarrow> Inl e
      | Inr total_ms \<Rightarrow> Inr (srt_clock total_ms))"


text \<open>
  The loop of \<open>build_srt\<close>: \<open>idx\<close> is the counter of \<open>enumerate(segments, start=1)\<close>,
  the result the list \<open>lines\<close>.
\<close>

fun srt_lines :: "nat \<Rightarrow> segment list \<Rightarrow> exn + string list" where
  "srt_lines idx [] = Inr []"
| "srt_lines idx (seg # rest) =
     (let text = strip (seg_text seg)
      in if text = [] then srt_lines (idx + 1) rest
         else case format_srt_ts (seg_start seg) of
                Inl e \<Rightarrow> Inl e
              | Inr a \<Rightarrow>
                  (case format_srt_ts (seg_end seg) of
                     Inl e \<Rightarrow> Inl e
                   | Inr b \<Rightarrow>
                       (case srt_lines (idx + 1) rest of
                          Inl e \<Rightarrow> Inl e
                        | Inr ls \<Rightarrow> Inr ([str_nat idx, a @ '' --> '' @ b, text, ''''] @ ls))))"

definition build_srt :: "segment list \<Rightarrow> exn + string" where
  "build_srt segments =
     (if segments = [] then Inr ''''
      else case srt_lines 1 segments of
             Inl e \<Rightarrow> Inl e
           | Inr lines \<Rightarrow> Inr (strip (join ''\<newline>'' lines) @ ''\<newline>''))"

text \<open>Two spoken segments with a blank one between them.\<close>

definition seg_a :: segment where
  "seg_a = \<lparr>seg_start = 0, seg_end = 1, seg_text = ''a''\<rparr>"

definition seg_blank :: segment where
  "seg_blank = \<lparr>seg_start = 1, seg_end = 2, seg_text = ''  ''\<rparr>"

definition seg_b :: segment where
  "seg_b = \<lparr>seg_start = 2, seg_end = 3, seg_text = '' b ''\<rparr>"



section \<open>Collaborators and the world\<close>

text \<open>
  The values a stage payload holds (the payload is a \<open>dict\<close> serialised between the
  stages): \<open>None\<close>, booleans, integers, floats, strings and the list of segment
  dictionaries, which is kept as a list of segments.
\<close>

datatype pyval = PNone | PBool bool | PInt int | PFloat real | PStr string
  | PSegments "segment list"

type_synonym payload = "string \<rightharpoonup> pyval"

fun truthy :: "pyval \<Rightarrow> bool" where
  "truthy PNone = False"
| "truthy (PBool b) = b"
| "truthy (PInt i) = (i \<noteq> 0)"
| "truthy (PFloat r) = (r \<noteq> 0)"
| "truthy (PStr s) = (s \<noteq> [])"
| "truthy (PSegments l) = (l \<noteq> [])"

text \<open>The test \<open>if payload.get(key):\<close>.\<close>

definition get_truthy :: "payload \<Rightarrow> string \<Rightarrow> bool" where
  "get_truthy p k = (case p k of None \<Rightarrow> False | Some v \<Rightarrow> truthy v)"

text \<open>
  \<open>int(v)\<close>: on a string, optional surrounding whitespace, an optional sign and decimal
  digits, single underscores allowed between digits.
\<close>

definition digit_val :: "char \<Rightarrow> nat option" where
  "digit_val c = (let n = (of_char c :: nat) in if 48 \<le> n \<and> n \<le> 57 then Some (n - 48) else None)"

fun digits_val :: "nat \<Rightarrow> string \<Rightarrow> nat option" where
  "digits_val acc [] = None"
| "digits_val acc [c] = (case digit_val c of None \<Rightarrow> None | Some d \<Rightarrow> Some (10 * acc + d))"
| "digits_val acc (c # u # rest) =
     (case digit_val c of
        None \<Rightarrow> None
      | Some d \<Rightarrow>
          if u = CHR ''_'' then digits_val (10 * acc + d) rest
          else digits_val (10 * acc + d) (u # rest))"

definition parse_int :: "string \<Rightarrow> int option" where
  "parse_int s =
     (case strip s of
        [] \<Rightarrow> None
      | c # cs \<Rightarrow>
          if c = CHR ''-'' then map_option (\<lambda>n. - int n) (digits_val 0 cs)
          else if c = CHR ''+'' then map_option int (digits_val 0 cs)
          else map_option int (digits_val 0 (c # cs)))"

fun int_of_pyval :: "pyval \<Rightarrow> exn + int" where
  "int_of_pyval (PInt i) = Inr i"
| "int_of_pyval (PBool b) = Inr (if b then 1 else 0)"
| "int_of_pyval (PFloat r) = Inr (py_int r)"
| "int_of_pyval (PStr s) =
     (case parse_int s of
        Some i \<Rightarrow> Inr i
      | None \<Rightarrow> Inl (Exn ValueError ''invalid literal for int() with base 10''))"
| "int_of_pyval PNone = Inl (Exn TypeError ''int() argument must be a string or a number'')"
| "int_of_pyval (PSegments l) = Inl (Exn TypeError ''int() argument must be a string or a number'')"

text \<open>
  What the collaborators answer is not decided by this repository: it is a parameter,
  the environment. \<open>fetch_video_info\<close> is the outcome of the function of that name in
  app/services/youtube.py, which either returns the metadata or raises
  \<open>YouTubeInfoError\<close> with a message (\<open>Inl\<close>); of the metadata only the duration is
  read. \<open>ydl_download\<close> is the outcome of the five download attempts: the file found, or
  the text of the last error. \<open>telegram_post\<close> tells whether a request to the Telegram
  API raises. \<open>ffmpeg\<close> is the return code and error output of the conversion, \<open>whisper\<close>
  the raw segments and detected language of the speech engine, \<open>openai\<close> the raw answer of
  the text engine. The fixed instruction texts of the three prompts and the titles of the
  Markdown exports are Russian text outside the characters of \<open>string\<close>; they are
  parameters too.
\<close>

record video_info =
  info_duration :: "real option"

datatype download_outcome = Downloaded string | AllFailed string

datatype notification =
    Message int string
  | Document int string string "string option" string

record env =
  max_video_minutes :: int
  fetch_video_info :: "string \<Rightarrow> string + video_info"
  ydl_download :: "string \<Rightarrow> download_outcome"
  telegram_post :: "notification \<Rightarrow> exn option"
  ffmpeg :: "string \<Rightarrow> string \<Rightarrow> int \<times> string"
  whisper :: "string \<Rightarrow> exn + (segment list \<times> string option)"
  openai :: "string \<Rightarrow> exn + string"
  map_instructions :: string
  summary_instructions :: string
  outline_instructions :: string
  summary_title :: string
  outline_title :: string
  transcript_title :: string
  empty_transcript :: string

text \<open>
  The world a stage runs in: the database, the requests made to the Telegram API (in
  order, whether or not they went through), the audio files handed to the speech engine
  and the prompts handed to the text engine. The temporary directory of a task is not
  modelled.
\<close>

record world =
  db :: session
  posts :: "notification list"
  transcribed :: "string list"
  prompts :: "string list"

definition exn_message :: "exn \<Rightarrow> string" where
  "exn_message e = (case e of Exn c m \<Rightarrow> m)"

definition exn_class_of :: "exn \<Rightarrow> exn_class" where
  "exn_class_of e = (case e of Exn c m \<Rightarrow> c)"

text \<open>app/services/telegram_notify.py.\<close>

definition post :: "env \<Rightarrow> world \<Rightarrow> notification \<Rightarrow> exn option \<times> world" where
  "post env w n = (telegram_post env n, w\<lparr>posts := posts w @ [n]\<rparr>)"

definition send_message :: "env \<Rightarrow> world \<Rightarrow> int \<Rightarrow> string \<Rightarrow> exn option \<times> world" where
  "send_message env w chat_id txt = post env w (Message chat_id txt)"

text \<open>Requests made one after the other; the first that raises ends the sequence.\<close>

fun post_all :: "env \<Rightarrow> world \<Rightarrow> notification list \<Rightarrow> exn option \<times> world" where
  "post_all env w [] = (None, w)"
| "post_all env w (n # ns) =
     (case post env w n of
        (Some e, w') \<Rightarrow> (Some e, w')
      | (None, w') \<Rightarrow> post_all env w' ns)"


section \<open>Video source (app/services/youtube.py)\<close>

definition max_video_seconds :: "env \<Rightarrow> int" where
  "max_video_seconds env = max_video_minutes env * 60"

definition too_long_message :: "env \<Rightarrow> int \<Rightarrow> string" where
  "too_long_message env duration =
     ''Video is too long ('' @ str_int (duration div 60) @ '' min). Maximum allowed is ''
       @ str_int (max_video_minutes env) @ '' min.''"

text \<open>\<open>int(info.get("duration") or 0)\<close>.\<close>

definition video_duration :: "video_info \<Rightarrow> int" where
  "video_duration info = (case info_duration info of None \<Rightarrow> 0 | Some d \<Rightarrow> py_int d)"

definition download_audio :: "env \<Rightarrow> string \<Rightarrow> exn + (string \<times> int)" where
  "download_audio env url =
     (case fetch_video_info env url of
        Inl msg \<Rightarrow> Inl (Exn YouTubeInfoError msg)
      | Inr info \<Rightarrow>
          let duration = video_duration info
          in if duration > max_video_seconds env
             then Inl (Exn VideoTooLongError (too_long_message env duration))
             else case ydl_download env url of
                    Downloaded path \<Rightarrow> Inr (path, duration)
                  | AllFailed error_str \<Rightarrow>
                      if contains ''HTTP Error 403'' error_str
                      then Inl (Exn YouTubeForbiddenError
                             (''YouTube blocked direct download (HTTP 403). ''
                              @ ''Set YTDLP_COOKIES_FILE with browser-exported cookies (Netscape format).''))
                      else Inl (Exn RuntimeError
                             (''Audio download failed after 5 attempts. Last error: '' @ error_str)))"


section \<open>Speech recognition (app/services/asr.py)\<close>

definition convert_to_wav_16k_mono :: "env \<Rightarrow> string \<Rightarrow> string \<Rightarrow> exn option" where
  "convert_to_wav_16k_mono env input_path output_path =
     (case ffmpeg env input_path output_path of
        (returncode, stderr) \<Rightarrow>
          if returncode \<noteq> 0 then Some (Exn RuntimeError (''ffmpeg conversion failed: '' @ stderr))
          else None)"

text \<open>
  \<open>transcribe_audio_file\<close> without its progress reports, which only observe the loop.
\<close>

definition transcribe_audio_file ::
  "env \<Rightarrow> world \<Rightarrow> string \<Rightarrow> (exn + (string \<times> string \<times> segment list)) \<times> world" where
  "transcribe_audio_file env w audio_path =
     (let w' = w\<lparr>transcribed := transcribed w @ [audio_path]\<rparr>
      in case whisper env audio_path of
           Inl e \<Rightarrow> (Inl e, w')
         | Inr (segments, lang) \<Rightarrow>
             let parsed_segments = map (\<lambda>sg. sg\<lparr>seg_text := strip (seg_text sg)\<rparr>) segments;
                 transcript = join '' '' (filter (\<lambda>t. t \<noteq> []) (map seg_text parsed_segments));
                 detected_language =
                   (case lang of None \<Rightarrow> ''unknown'' | Some l \<Rightarrow> if l = [] then ''unknown'' else l)
             in (Inr (transcript, detected_language, parsed_segments), w'))"


section \<open>Summarisation (app/services/llm.py)\<close>

definition join_segment_text :: "segment list \<Rightarrow> string" where
  "join_segment_text segments =
     join '' '' (map (\<lambda>item. strip (seg_text item))
                   (filter (\<lambda>item. strip (seg_text item) \<noteq> []) segments))"

definition ask_model :: "env \<Rightarrow> world \<Rightarrow> string \<Rightarrow> (exn + string) \<times> world" where
  "ask_model env w prompt =
     (let w' = w\<lparr>prompts := prompts w @ [prompt]\<rparr>
      in case openai env prompt of
           Inl e \<Rightarrow> (Inl e, w')
         | Inr output_text \<Rightarrow> (Inr (strip output_text), w'))"

definition chunk_prompt :: "env \<Rightarrow> nat \<Rightarrow> segment list \<Rightarrow> string" where
  "chunk_prompt env idx chunk =
     map_instructions env @ ''Chunk #'' @ str_nat idx @ '':\<newline>'' @ join_segment_text chunk"

text \<open>The map loop: one request per chunk, numbered from \<open>idx\<close>.\<close>

fun map_chunks ::
  "env \<Rightarrow> world \<Rightarrow> nat \<Rightarrow> segment list list \<Rightarrow> (exn + string list) \<times> world" where
  "map_chunks env w idx [] = (Inr [], w)"
| "map_chunks env w idx (chunk # rest) =
     (case ask_model env w (chunk_prompt env idx chunk) of
        (Inl e, w1) \<Rightarrow> (Inl e, w1)
      | (Inr reply, w1) \<Rightarrow>
          (case map_chunks env w1 (idx + 1) rest of
             (Inl e, w2) \<Rightarrow> (Inl e, w2)
           | (Inr replies, w2) \<Rightarrow> (Inr (reply # replies), w2)))"

text \<open>Lines 38 to 77 of \<open>summarize_with_map_reduce\<close>: map, merge, the two reductions.\<close>

definition summarize_chunks ::
  "env \<Rightarrow> world \<Rightarrow> segment list list \<Rightarrow> (exn + (string \<times> string)) \<times> world" where
  "summarize_chunks env w chunks =
     (case map_chunks env w 1 chunks of
        (Inl e, w1) \<Rightarrow> (Inl e, w1)
      | (Inr partial_summaries, w1) \<Rightarrow>
          let merged = join ''\<newline>\<newline>'' partial_summaries
          in case ask_model env w1 (summary_instructions env @ merged) of
               (Inl e, w2) \<Rightarrow> (Inl e, w2)
             | (Inr final_summary, w2) \<Rightarrow>
                 (case ask_model env w2 (outline_instructions env @ merged) of
                    (Inl e, w3) \<Rightarrow> (Inl e, w3)
                  | (Inr outl, w3) \<Rightarrow> (Inr (final_summary, outl), w3)))"

definition summarize_with_map_reduce ::
  "env \<Rightarrow> world \<Rightarrow> string \<Rightarrow> segment list \<Rightarrow> (exn + (string \<times> string)) \<times> world" where
  "summarize_with_map_reduce env w transcript segments =
     (if strip transcript = []
      then (Inr (''No speech detected.'', ''No lecture outline available.''), w)
      else
        let chunks0 = chunk_segments_by_minutes segments 10;
            chunks = (if chunks0 = []
                      then [[\<lparr>seg_start = 0, seg_end = 0, seg_text = transcript\<rparr>]]
                      else chunks0)
        in summarize_chunks env w chunks)"



section \<open>The stages (app/worker/tasks.py)\<close>

text \<open>
  A stage takes the world and its argument and returns what Celery sees, the returned
  payload (\<open>Inr\<close>) or the exception that left the function (\<open>Inl\<close>), with the world
  after the call.
\<close>

definition autoretry_for :: "exn \<Rightarrow> bool" where
  "autoretry_for e = (exn_class_of e = RuntimeError)"

definition is_rejection :: "exn \<Rightarrow> bool" where
  "is_rejection e =
     (exn_class_of e \<in> {VideoTooLongError, YouTubeForbiddenError, YouTubeInfoError})"

definition task_temp_dir :: "int \<Rightarrow> string" where
  "task_temp_dir tid = ''/tmp/youtube_lmm/'' @ str_int tid"

definition skip_payload :: "int \<Rightarrow> payload" where
  "skip_payload tid = [''task_id'' \<mapsto> PInt tid, ''skip'' \<mapsto> PBool True]"

definition not_found :: "int \<Rightarrow> exn" where
  "not_found tid = Exn ValueError (''Task '' @ str_int tid @ '' not found'')"

definition download_audio_task :: "env \<Rightarrow> world \<Rightarrow> int \<Rightarrow> (exn + payload) \<times> world" where
  "download_audio_task env w tid =
     (case get_task (db w) tid of
        None \<Rightarrow> (Inl (not_found tid), w)
      | Some task0 \<Rightarrow>
          if status task0 = ''completed'' then (Inr (skip_payload tid), w)
          else
            let s1 = snd (set_status (db w) tid ''downloading'' None None None);
                w1 = w\<lparr>db := s1\<rparr>
            in case get_task s1 tid of
                 None \<Rightarrow> (Inl (not_found tid), w1)
               | Some task1 \<Rightarrow>
                   (case download_audio env (video_url task1) of
                      Inr (source_path, duration) \<Rightarrow>
                        (Inr [''task_id'' \<mapsto> PInt tid, ''source_path'' \<mapsto> PStr source_path,
                              ''duration_sec'' \<mapsto> PInt duration],
                         w1\<lparr>db := snd (set_status s1 tid ''downloaded'' None None (Some duration))\<rparr>)
                    | Inl exc \<Rightarrow>
                        if is_rejection exc then
                          let r = set_status s1 tid ''failed'' (Some (exn_message exc)) None None;
                              w2 = w1\<lparr>db := snd r\<rparr>;
                              w3 = (case fst r of
                                      None \<Rightarrow> w2
                                    | Some task2 \<Rightarrow>
                                        snd (send_message env w2 (user_id task2)
                                               (''Task '' @ str_int tid @ '' rejected: ''
                                                @ exn_message exc)))
                          in (Inr (skip_payload tid), w3)
                        else (Inl exc, w1)))"

text \<open>The first line of the three later stages: \<open>task_id = int(payload["task_id"])\<close>.\<close>

definition payload_task_id :: "payload \<Rightarrow> exn + int" where
  "payload_task_id p =
     (case p ''task_id'' of None \<Rightarrow> Inl (Exn KeyError ''task_id'') | Some v \<Rightarrow> int_of_pyval v)"

text \<open>\<open>[TranscriptSegment(**item) for item in payload.get("segments", [])]\<close>.\<close>

definition payload_segments :: "payload \<Rightarrow> exn + segment list" where
  "payload_segments p =
     (case p ''segments'' of
        None \<Rightarrow> Inr []
      | Some (PSegments l) \<Rightarrow> Inr l
      | Some (PStr s) \<Rightarrow> if s = [] then Inr [] else Inl (Exn TypeError ''argument after ** must be a mapping'')
      | Some _ \<Rightarrow> Inl (Exn TypeError ''object is not iterable''))"

definition transcribe_audio_task :: "env \<Rightarrow> world \<Rightarrow> payload \<Rightarrow> (exn + payload) \<times> world" where
  "transcribe_audio_task env w p =
     (case payload_task_id p of
        Inl e \<Rightarrow> (Inl e, w)
      | Inr tid \<Rightarrow>
          if get_truthy p ''skip'' then (Inr p, w)
          else
            let w1 = w\<lparr>db := snd (set_status (db w) tid ''transcribing'' None None None)\<rparr>
            in case p ''source_path'' of
                 None \<Rightarrow> (Inl (Exn KeyError ''source_path''), w1)
               | Some (PStr source_path) \<Rightarrow>
                   let wav_path = task_temp_dir tid @ ''/audio.wav''
                   in (case convert_to_wav_16k_mono env source_path wav_path of
                         Some e \<Rightarrow> (Inl e, w1)
                       | None \<Rightarrow>
                           (case transcribe_audio_file env w1 wav_path of
                              (Inl e, w2) \<Rightarrow> (Inl e, w2)
                            | (Inr (transcript, detected_language, segments), w2) \<Rightarrow>
                                (Inr (p(''transcript_text'' \<mapsto> PStr transcript,
                                        ''language'' \<mapsto> PStr detected_language,
                                        ''segments'' \<mapsto> PSegments segments)),
                                 w2\<lparr>db := snd (set_status (db w2) tid ''transcribed'' None
                                                  (Some detected_language) None)\<rparr>)))
               | Some _ \<Rightarrow> (Inl (Exn TypeError ''expected str, bytes or os.PathLike object''), w1))"

definition summarize_transcript_task ::
  "env \<Rightarrow> world \<Rightarrow> payload \<Rightarrow> (exn + payload) \<times> world" where
  "summarize_transcript_task env w p =
     (case payload_task_id p of
        Inl e \<Rightarrow> (Inl e, w)
      | Inr tid \<Rightarrow>
          if get_truthy p ''skip'' then (Inr p, w)
          else
            let w1 = w\<lparr>db := snd (set_status (db w) tid ''summarizing'' None None None)\<rparr>
            in case payload_segments p of
                 Inl e \<Rightarrow> (Inl e, w1)
               | Inr segments \<Rightarrow>
                   (case (case p ''transcript_text'' of None \<Rightarrow> PStr [] | Some v \<Rightarrow> v) of
                      PStr transcript \<Rightarrow>
                        (case summarize_with_map_reduce env w1 transcript segments of
                           (Inl e, w2) \<Rightarrow> (Inl e, w2)
                         | (Inr (summ, outl), w2) \<Rightarrow>
                             (Inr (p(''summary'' \<mapsto> PStr summ, ''outline'' \<mapsto> PStr outl)), w2))
                    | _ \<Rightarrow> (Inl (Exn AttributeError ''object has no attribute strip''), w1)))"

text \<open>The three Markdown builders of app/utils/exports.py.\<close>

definition build_summary_markdown :: "env \<Rightarrow> int \<Rightarrow> string \<Rightarrow> string" where
  "build_summary_markdown env tid summ =
     summary_title env @ ''\<newline>\<newline>Task ID: '' @ str_int tid @ ''\<newline>\<newline>'' @ strip summ @ ''\<newline>''"

definition build_outline_markdown :: "env \<Rightarrow> int \<Rightarrow> string \<Rightarrow> string" where
  "build_outline_markdown env tid outl =
     outline_title env @ ''\<newline>\<newline>Task ID: '' @ str_int tid @ ''\<newline>\<newline>'' @ strip outl @ ''\<newline>''"

definition build_transcript_markdown :: "env \<Rightarrow> int \<Rightarrow> string \<Rightarrow> string" where
  "build_transcript_markdown env tid transcript =
     (let body = (if strip transcript = [] then empty_transcript env else strip transcript)
      in transcript_title env @ ''\<newline>\<newline>Task ID: '' @ str_int tid @ ''\<newline>\<newline>'' @ body @ ''\<newline>'')"

text \<open>
  A payload value stored in a text column: a string is stored; any other value is taken
  to be refused by the database.
\<close>

definition text_column :: "payload \<Rightarrow> string \<Rightarrow> exn + string" where
  "text_column p k =
     (case p k of
        None \<Rightarrow> Inr []
      | Some (PStr s) \<Rightarrow> Inr s
      | Some _ \<Rightarrow> Inl (Exn OtherException ''value refused by the text column''))"

text \<open>The requests of the \<open>try\<close> block of \<open>finalize_task\<close>, in order.\<close>

definition result_files :: "env \<Rightarrow> int \<Rightarrow> int \<Rightarrow> result \<Rightarrow> string \<Rightarrow> notification list" where
  "result_files env chat tid r srt =
     [Message chat (''Task '' @ str_int tid @ '' completed. Sending result files.''),
      Document chat (''task_'' @ str_int tid @ ''_summary.md'')
        (build_summary_markdown env tid (summary r))
        (Some (''Task '' @ str_int tid @ '': summary'')) ''text/markdown'',
      Document chat (''task_'' @ str_int tid @ ''_outline.md'')
        (build_outline_markdown env tid (outline r)) None ''text/markdown'',
      Document chat (''task_'' @ str_int tid @ ''_transcript.md'')
        (build_transcript_markdown env tid (transcript_text r)) None ''text/markdown'']
     @ (if strip srt \<noteq> []
        then [Document chat (''task_'' @ str_int tid @ ''_subtitles.srt'') srt None
                ''application/x-subrip'']
        else [])"

definition finalize_task :: "env \<Rightarrow> world \<Rightarrow> payload \<Rightarrow> (exn + payload) \<times> world" where
  "finalize_task env w p =
     (case payload_task_id p of
        Inl e \<Rightarrow> (Inl e, w)
      | Inr tid \<Rightarrow>
          if get_truthy p ''skip'' then (Inr p, w)
          else
            case payload_segments p of
              Inl e \<Rightarrow> (Inl e, w)
            | Inr segments \<Rightarrow>
                (case build_srt segments of
                   Inl e \<Rightarrow> (Inl e, w)
                 | Inr srt \<Rightarrow>
                     (case (text_column p ''transcript_text'', text_column p ''summary'',
                            text_column p ''outline'') of
                        (Inr transcript, Inr summ, Inr outl) \<Rightarrow>
                          let ur = upsert_result (db w) tid transcript summ outl
                                     (if srt = [] then None else Some srt);
                              sr = set_status (snd ur) tid ''completed'' (Some '''') None None;
                              w1 = w\<lparr>db := snd sr\<rparr>;
                              done = [''task_id'' \<mapsto> PInt tid, ''status'' \<mapsto> PStr ''completed'']
                          in (case fst sr of
                                None \<Rightarrow> (Inr done, w1)
                              | Some task_parent \<Rightarrow>
                                  (case post_all env w1
                                          (result_files env (user_id task_parent) tid (fst ur) srt) of
                                     (None, w2) \<Rightarrow> (Inr done, w2)
                                   | (Some e, w2) \<Rightarrow>
                                       (case send_message env w2 (user_id task_parent)
                                               (''Task '' @ str_int tid
                                                @ '' completed, but file delivery failed.'') of
                                          (None, w3) \<Rightarrow> (Inr done, w3)
                                        | (Some e', w3) \<Rightarrow> (Inl e', w3))))
                      | (Inl e, _, _) \<Rightarrow> (Inl e, w)
                      | (_, Inl e, _) \<Rightarrow> (Inl e, w)
                      | (_, _, Inl e) \<Rightarrow> (Inl e, w))))"

text \<open>
  \<open>DBTask.on_failure\<close>, which Celery calls with the stage's arguments once an exception
  is final (the retries of a \<open>RuntimeError\<close> are used up, or the class is not retried).
  \<open>extract_task_id\<close> is \<open>_extract_task_id\<close> on a payload argument; \<open>bool\<close> is a subclass
  of \<open>int\<close>.
\<close>

definition extract_task_id :: "payload \<Rightarrow> int option" where
  "extract_task_id p =
     (case p ''task_id'' of
        Some (PInt i) \<Rightarrow> Some i
      | Some (PBool b) \<Rightarrow> Some (if b then 1 else 0)
      | _ \<Rightarrow> None)"

definition on_failure :: "env \<Rightarrow> world \<Rightarrow> exn \<Rightarrow> int option \<Rightarrow> world" where
  "on_failure env w exc task_pk =
     (case task_pk of
        None \<Rightarrow> w
      | Some tid \<Rightarrow>
          let r = set_status (db w) tid ''failed'' (Some (exn_message exc)) None None;
              w1 = w\<lparr>db := snd r\<rparr>
          in case fst r of
               None \<Rightarrow> w1
             | Some t \<Rightarrow>
                 snd (send_message env w1 (user_id t)
                        (''Task '' @ str_int tid @ '' failed: '' @ exn_message exc)))"

text \<open>
  The chain of app/bot/main.py: each stage gets the payload the stage before returned; an
  exception that is final ends the chain after \<open>on_failure\<close>. The environment fixes the
  answers of the collaborators, so the re-runs of a retried stage are not unfolded.
\<close>

definition run_stage ::
  "(env \<Rightarrow> world \<Rightarrow> payload \<Rightarrow> (exn + payload) \<times> world)
     \<Rightarrow> env \<Rightarrow> (exn + payload) \<times> world \<Rightarrow> (exn + payload) \<times> world" where
  "run_stage stage env r =
     (case r of
        (Inl e, w) \<Rightarrow> (Inl e, w)
      | (Inr p, w) \<Rightarrow>
          (case stage env w p of
             (Inl e, w') \<Rightarrow> (Inl e, on_failure env w' e (extract_task_id p))
           | (Inr p', w') \<Rightarrow> (Inr p', w')))"

definition run_chain :: "env \<Rightarrow> world \<Rightarrow> int \<Rightarrow> (exn + payload) \<times> world" where
  "run_chain env w tid =
     (let first = (case download_audio_task env w tid of
                     (Inl e, w') \<Rightarrow> (Inl e, on_failure env w' e (Some tid))
                   | (Inr p, w') \<Rightarrow> (Inr p, w'))
      in run_stage finalize_task env
           (run_stage summarize_transcript_task env
              (run_stage transcribe_audio_task env first)))"


text \<open>
  A concrete environment and world: the video lasts two hours against a limit of 60
  minutes, every collaborator answers, and task 3 has just been created.
\<close>

definition sample_env :: env where
  "sample_env = \<lparr>
     max_video_minutes = 60,
     fetch_video_info = (\<lambda>url. Inr \<lparr>info_duration = Some 7200.5\<rparr>),
     ydl_download = (\<lambda>url. Downloaded ''/tmp/youtube_lmm/3/source.m4a''),
     telegram_post = (\<lambda>n. None),
     ffmpeg = (\<lambda>input_path output_path. (0, [])),
     whisper = (\<lambda>path. Inr ([seg_a, seg_blank, seg_b], Some ''en'')),
     openai = (\<lambda>prompt. Inr '' ok ''),
     map_instructions = ''Condense the fragment.\<newline>\<newline>'',
     summary_instructions = ''Write the final summary.\<newline>\<newline>'',
     outline_instructions = ''Write the outline.\<newline>\<newline>'',
     summary_title = ''# Summary'',
     outline_title = ''# Outline'',
     transcript_title = ''# Transcript'',
     empty_transcript = ''(empty)''\<rparr>"

definition created_task :: task where
  "created_task = \<lparr>task_id = 3, user_id = 7, video_url = ''https://youtu.be/dQw4w9WgXcQ'',
     status = ''created'', error = None, language = None, duration_sec = None\<rparr>"

definition sample_world :: world where
  "sample_world = \<lparr>db = \<lparr>tasks = [3 \<mapsto> created_task], results = Map.empty\<rparr>,
     posts = [], transcribed = [], prompts = []\<rparr>"

definition full_payload :: payload where
  "full_payload = [''task_id'' \<mapsto> PInt 3, ''source_path'' \<mapsto> PStr ''/tmp/youtube_lmm/3/source.m4a'',
     ''duration_sec'' \<mapsto> PInt 90, ''transcript_text'' \<mapsto> PStr ''a b'', ''language'' \<mapsto> PStr ''en'',
     ''segments'' \<mapsto> PSegments [seg_a, seg_b], ''summary'' \<mapsto> PStr ''s'', ''outline'' \<mapsto> PStr ''o'']"

definition blank_payload :: payload where
  "blank_payload = [''task_id'' \<mapsto> PInt 3, ''source_path'' \<mapsto> PStr ''/tmp/youtube_lmm/3/source.m4a'',
     ''duration_sec'' \<mapsto> PInt 90, ''transcript_text'' \<mapsto> PStr ''  '', ''language'' \<mapsto> PStr ''en'',
     ''segments'' \<mapsto> PSegments [seg_blank]]"

definition source_payload :: payload where
  "source_payload = [''task_id'' \<mapsto> PInt 3, ''source_path'' \<mapsto> PStr ''/tmp/youtube_lmm/3/source.m4a'',
     ''duration_sec'' \<mapsto> PInt 90]"


section \<open>The terminal-state guard\<close>

lemma terminal_membership:
  "x \<in> TERMINAL_STATUSES \<longleftrightarrow> x = ''completed'' \<or> x = ''failed''"
  by (auto simp: TERMINAL_STATUSES_def)

text \<open>
  C1, as the code has it: a stored task whose status is terminal is returned unchanged,
  and the session is left as it was, whenever the requested status is not terminal. The
  guard of \<open>set_status\<close> lets a terminal request through.
\<close>

theorem set_status_terminal_noop:
  assumes "tasks s tid = Some t"
    and "status t \<in> TERMINAL_STATUSES"
    and "new_status \<notin> TERMINAL_STATUSES"
  shows "set_status s tid new_status err lang dur = (Some t, s)"
  using assms by (simp add: set_status_def)

theorem set_status_terminal_noop_witness:
  "tasks failed_session 1 = Some failed_task
   \<and> status failed_task \<in> TERMINAL_STATUSES
   \<and> ''transcribing'' \<notin> TERMINAL_STATUSES
   \<and> set_status failed_session 1 ''transcribing'' None (Some ''en'') (Some 12)
       = (Some failed_task, failed_session)"
proof -
  have a: "tasks failed_session 1 = Some failed_task"
    by (simp add: failed_session_def)
  have b: "status failed_task \<in> TERMINAL_STATUSES"
    by (simp add: failed_task_def TERMINAL_STATUSES_def)
  have c: "''transcribing'' \<notin> TERMINAL_STATUSES"
    by (simp add: TERMINAL_STATUSES_def)
  show ?thesis
    using a b c set_status_terminal_noop [OF a b c, of None "Some ''en''" "Some 12"] by simp
qed

text \<open>
  C1 as stated fails: a failed task with error text \<open>boom\<close>, asked to become
  \<open>completed\<close> with the empty error text (the call of the last stage), is rewritten.
\<close>

theorem set_status_terminal_counterexample:
  "tasks failed_session 1 = Some failed_task
   \<and> status failed_task = ''failed''
   \<and> error failed_task = Some ''boom''
   \<and> fst (set_status failed_session 1 ''completed'' (Some '''') None None)
       = Some (failed_task\<lparr>status := ''completed'', error := Some ''''\<rparr>)
   \<and> fst (set_status failed_session 1 ''completed'' (Some '''') None None) \<noteq> Some failed_task"
  by (simp add: set_status_def Let_def failed_session_def failed_task_def TERMINAL_STATUSES_def)

text \<open>
  C9: on an existing task that is not terminal, \<open>set_status\<close> stores the new status,
  overwrites each of error, language and duration exactly when a value is supplied and
  keeps it otherwise, and touches no other column and no other row. An error text that
  is set stays set: no call resets it to NULL.
\<close>

theorem set_status_optional_fields:
  assumes "tasks s tid = Some t"
    and "status t \<notin> TERMINAL_STATUSES"
  shows "\<exists>t'. set_status s tid new_status err lang dur
                 = (Some t', s\<lparr>tasks := (tasks s)(tid \<mapsto> t')\<rparr>)
           \<and> status t' = new_status
           \<and> error t' = (case err of None \<Rightarrow> error t | Some e \<Rightarrow> Some e)
           \<and> language t' = (case lang of None \<Rightarrow> language t | Some l \<Rightarrow> Some l)
           \<and> duration_sec t' = (case dur of None \<Rightarrow> duration_sec t | Some d \<Rightarrow> Some d)
           \<and> task_id t' = task_id t \<and> user_id t' = user_id t \<and> video_url t' = video_url t
           \<and> (error t \<noteq> None \<longrightarrow> error t' \<noteq> None)"
  using assms by (auto simp: set_status_def Let_def split: option.splits)

theorem set_status_optional_fields_witness:
  "tasks running_session 2 = Some running_task
   \<and> status running_task \<notin> TERMINAL_STATUSES
   \<and> (\<exists>t'. set_status running_session 2 ''downloaded'' None None (Some 90)
                = (Some t', running_session\<lparr>tasks := (tasks running_session)(2 \<mapsto> t')\<rparr>)
          \<and> status t' = ''downloaded''
          \<and> error t' = Some ''earlier''
          \<and> language t' = None
          \<and> duration_sec t' = Some 90)"
proof -
  have a: "tasks running_session 2 = Some running_task"
    by (simp add: running_session_def)
  have b: "status running_task \<notin> TERMINAL_STATUSES"
    by (simp add: running_task_def TERMINAL_STATUSES_def)
  have c: "error running_task = Some ''earlier''" "language running_task = None"
    by (simp_all add: running_task_def)
  show ?thesis
    using a b c set_status_optional_fields [OF a b, of "''downloaded''" None None "Some 90"]
    by auto
qed


section \<open>Float rounding\<close>

lemma round_half_even_of_int: "round_half_even (real_of_int n) = n"
  by (simp add: round_half_even_def)

lemma round_half_even_error: "\<bar>real_of_int (round_half_even z) - z\<bar> \<le> 1 / 2"
  unfolding round_half_even_def Let_def by (auto; linarith)

lemma powi_nat: "(2::real) powi int n = 2 ^ n"
  by (simp add: power_int_def)

lemma float_exponent_le:
  assumes "x \<noteq> 0"
  shows "2 powi float_exponent x \<le> \<bar>x\<bar>"
proof (cases "1 \<le> \<bar>x\<bar>")
  case True
  let ?n = "\<lfloor>\<bar>x\<bar>\<rfloor>"
  have n: "0 < ?n" using True by linarith
  have e: "float_exponent x = int (nat (bitlen ?n - 1))"
    using True n bitlen_nonneg [of ?n] bitlen_eq_zero_iff [of ?n]
    by (simp add: float_exponent_def)
  have "(2::int) ^ nat (bitlen ?n - 1) \<le> ?n" using bitlen_bounds [OF n] by simp
  then have "real_of_int (2 ^ nat (bitlen ?n - 1)) \<le> real_of_int ?n" by (simp only: of_int_le_iff)
  also have "\<dots> \<le> \<bar>x\<bar>" by (rule of_int_floor_le)
  finally have "(2::real) ^ nat (bitlen ?n - 1) \<le> \<bar>x\<bar>" by simp
  then show ?thesis unfolding e powi_nat .
next
  case False
  let ?N = "\<lceil>1 / \<bar>x\<bar>\<rceil>"
  let ?k = "bitlen (?N - 1)"
  have x: "0 < \<bar>x\<bar>" "\<bar>x\<bar> < 1" using assms False by simp_all
  then have r: "1 < 1 / \<bar>x\<bar>" by simp
  then have N: "0 < ?N - 1" by linarith
  have e: "float_exponent x = - int (nat ?k)"
    using False bitlen_nonneg [of "?N - 1"] by (simp add: float_exponent_def)
  have "?N - 1 < 2 ^ nat ?k" using bitlen_bounds [OF N] by simp
  then have "?N \<le> 2 ^ nat ?k" by simp
  then have "real_of_int ?N \<le> real_of_int (2 ^ nat ?k)" by (simp only: of_int_le_iff)
  moreover have "1 / \<bar>x\<bar> \<le> real_of_int ?N" by (rule le_of_int_ceiling)
  ultimately have "1 / \<bar>x\<bar> \<le> real_of_int (2 ^ nat ?k)" by linarith
  then have "1 / \<bar>x\<bar> \<le> 2 ^ nat ?k" by simp
  then have "1 / 2 ^ nat ?k \<le> \<bar>x\<bar>" using x
    by (simp add: field_simps)
  then show ?thesis unfolding e power_int_minus_divide powi_nat .
qed

lemma float_exponent_gt:
  assumes "x \<noteq> 0"
  shows "\<bar>x\<bar> < 2 powi (float_exponent x + 1)"
proof (cases "1 \<le> \<bar>x\<bar>")
  case True
  let ?n = "\<lfloor>\<bar>x\<bar>\<rfloor>"
  have n: "0 < ?n" using True by linarith
  have e: "float_exponent x + 1 = int (nat (bitlen ?n))"
    using True n bitlen_nonneg [of ?n] by (simp add: float_exponent_def)
  have "?n < 2 ^ nat (bitlen ?n)" using bitlen_bounds [OF n] by simp
  then have "?n + 1 \<le> 2 ^ nat (bitlen ?n)" by simp
  then have "real_of_int (?n + 1) \<le> real_of_int (2 ^ nat (bitlen ?n))" by (simp only: of_int_le_iff)
  moreover have "\<bar>x\<bar> < real_of_int (?n + 1)" by linarith
  ultimately have "\<bar>x\<bar> < real_of_int (2 ^ nat (bitlen ?n))" by linarith
  then have "\<bar>x\<bar> < 2 ^ nat (bitlen ?n)" by simp
  then show ?thesis unfolding e powi_nat .
next
  case False
  let ?N = "\<lceil>1 / \<bar>x\<bar>\<rceil>"
  let ?k = "bitlen (?N - 1)"
  have x: "0 < \<bar>x\<bar>" "\<bar>x\<bar> < 1" using assms False by simp_all
  then have r: "1 < 1 / \<bar>x\<bar>" by simp
  then have N: "0 < ?N - 1" by linarith
  have k: "0 < ?k" using N bitlen_eq_zero_iff [of "?N - 1"] bitlen_nonneg [of "?N - 1"] by linarith
  have e: "float_exponent x + 1 = - int (nat (?k - 1))"
    using False k by (simp add: float_exponent_def)
  have "2 ^ nat (?k - 1) \<le> ?N - 1" using bitlen_bounds [OF N] by simp
  then have "real_of_int (2 ^ nat (?k - 1)) \<le> real_of_int (?N - 1)" by (simp only: of_int_le_iff)
  moreover have "real_of_int (?N - 1) < 1 / \<bar>x\<bar>" by linarith
  ultimately have "real_of_int (2 ^ nat (?k - 1)) < 1 / \<bar>x\<bar>" by linarith
  then have "2 ^ nat (?k - 1) < 1 / \<bar>x\<bar>" by simp
  then have "\<bar>x\<bar> < 1 / 2 ^ nat (?k - 1)" using x
    by (simp add: field_simps)
  then show ?thesis unfolding e power_int_minus_divide powi_nat .
qed

lemma float_exponent_eqI:
  assumes "2 powi e \<le> \<bar>x\<bar>" and "\<bar>x\<bar> < 2 powi (e + 1)"
  shows "float_exponent x = e"
proof -
  have x: "x \<noteq> 0"
  proof
    assume "x = 0"
    with assms(1) have "(2::real) powi e \<le> 0" by simp
    moreover have "0 < (2::real) powi e" by (rule zero_less_power_int) simp
    ultimately show False by linarith
  qed
  have "(2::real) powi float_exponent x < 2 powi (e + 1)"
    using float_exponent_le [OF x] assms(2) by linarith
  then have a: "float_exponent x < e + 1"
    by (metis power_int_increasing not_less one_le_numeral)
  have "(2::real) powi e < 2 powi (float_exponent x + 1)"
    using float_exponent_gt [OF x] assms(1) by linarith
  then have b: "e < float_exponent x + 1"
    by (metis power_int_increasing not_less one_le_numeral)
  from a b show ?thesis by simp
qed

lemma fl_eval:
  assumes "2 powi e \<le> \<bar>x\<bar>" and "\<bar>x\<bar> < 2 powi (e + 1)" and "- 1022 \<le> e"
  shows "fl x = of_int (round_half_even (x / 2 powi (e - 52))) * 2 powi (e - 52)"
proof -
  have x: "x \<noteq> 0"
  proof
    assume "x = 0"
    with assms(1) have "(2::real) powi e \<le> 0" by simp
    moreover have "0 < (2::real) powi e" by (rule zero_less_power_int) simp
    ultimately show False by linarith
  qed
  show ?thesis
    using x assms(3) by (simp add: fl_def float_exponent_eqI [OF assms(1,2)] max_def Let_def)
qed

lemma fl_error:
  assumes "\<bar>x\<bar> \<le> 2 powi k" and "- 1022 \<le> k"
  shows "\<bar>fl x - x\<bar> \<le> 2 powi (k - 53)"
proof (cases "x = 0")
  case True
  then show ?thesis by (simp add: fl_def)
next
  case False
  let ?e = "max (float_exponent x) (- 1022)"
  let ?q = "(2::real) powi (?e - 52)"
  have q: "0 < ?q" by (simp add: zero_less_power_int)
  have "(2::real) powi float_exponent x \<le> 2 powi k"
    using float_exponent_le [OF False] assms(1) by linarith
  then have "float_exponent x \<le> k"
    by (metis power_int_strict_increasing not_less one_less_numeral_iff semiring_norm(76))
  then have ek: "?e \<le> k" using assms(2) by simp
  have "\<bar>fl x - x\<bar> = \<bar>real_of_int (round_half_even (x / ?q)) - x / ?q\<bar> * ?q"
  proof -
    have "fl x - x = (real_of_int (round_half_even (x / ?q)) - x / ?q) * ?q"
      using False q by (simp add: fl_def Let_def field_simps)
    then show ?thesis using q by (simp add: abs_mult)
  qed
  also have "\<dots> \<le> 1 / 2 * ?q"
    using round_half_even_error [of "x / ?q"] q by (intro mult_right_mono) simp_all
  also have "\<dots> = 2 powi (?e - 53)"
  proof -
    have "(2::real) powi (?e - 52) = 2 powi ((?e - 53) + 1)" by simp
    also have "\<dots> = 2 powi (?e - 53) * 2" by (subst power_int_add_1) simp_all
    finally show ?thesis by simp
  qed
  also have "\<dots> \<le> 2 powi (k - 53)"
    using ek by (intro power_int_increasing) simp_all
  finally show ?thesis .
qed

lemma fl_exact:
  assumes "x = real_of_int n * 2 powi p" and "\<bar>n\<bar> < 2 ^ 53" and "- 1074 \<le> p"
  shows "fl x = x"
proof (cases "x = 0")
  case True
  then show ?thesis by (simp add: fl_def)
next
  case False
  define e where "e = max (float_exponent x) (- 1022)"
  define q where "q = (2::real) powi (e - 52)"
  have "\<bar>x\<bar> = real_of_int \<bar>n\<bar> * 2 powi p"
    by (simp add: assms(1) abs_mult)
  also have "\<dots> < 2 ^ 53 * 2 powi p"
  proof -
    have "real_of_int \<bar>n\<bar> < real_of_int (2 ^ 53)" using assms(2) by (simp only: of_int_less_iff)
    then show ?thesis by (simp add: zero_less_power_int)
  qed
  also have "\<dots> = 2 powi (53 + p)"
    by (subst power_int_add) simp_all
  finally have "(2::real) powi float_exponent x < 2 powi (53 + p)"
    using float_exponent_le [OF False] by linarith
  then have "float_exponent x < 53 + p"
    by (metis power_int_increasing not_less one_le_numeral)
  then have ep: "e - 52 \<le> p" using assms(3) by (simp add: e_def)
  define j where "j = nat (p - (e - 52))"
  have p: "p = (e - 52) + int j" using ep by (simp add: j_def)
  have pw: "(2::real) powi p = q * 2 ^ j"
    unfolding q_def by (subst p, subst power_int_add) (simp_all add: powi_nat)
  have q: "q \<noteq> 0"
    using zero_less_power_int [of "2::real" "e - 52"] by (simp add: q_def)
  have xq: "x = real_of_int (n * 2 ^ j) * q"
    using assms(1) pw by simp
  have "x / q = real_of_int (n * 2 ^ j)"
    using q by (subst xq) simp
  then have "round_half_even (x / q) = n * 2 ^ j"
    by (simp only: round_half_even_of_int)
  then have "fl x = real_of_int (n * 2 ^ j) * q"
    using False by (simp add: fl_def Let_def e_def [symmetric] q_def [symmetric])
  also have "\<dots> = x" by (rule xq [symmetric])
  finally show ?thesis .
qed

lemma fl_of_int: "\<bar>n\<bar> < 2 ^ 53 \<Longrightarrow> fl (real_of_int n) = real_of_int n"
  using fl_exact [of "real_of_int n" n 0] by simp

lemma fl_numeral: "(numeral k :: int) < 2 ^ 53 \<Longrightarrow> fl (numeral k) = numeral k"
  using fl_of_int [of "numeral k"] by simp

lemma fl_0: "fl 0 = 0"
  by (simp add: fl_def)

lemma fl_1: "fl 1 = 1"
  using fl_of_int [of 1] by simp

lemma fl_dyadic:
  "\<bar>n\<bar> < 2 ^ 53 \<Longrightarrow> fl (real_of_int n / 2 ^ j) = real_of_int n / 2 ^ j" if "j \<le> 1074"
  using fl_exact [of "real_of_int n / 2 ^ j" n "- int j"] that
  by (simp add: power_int_minus_divide powi_nat)

lemma fl_eval_to:
  assumes "2 powi e \<le> \<bar>x\<bar>" and "\<bar>x\<bar> < 2 powi (e + 1)" and "- 1022 \<le> e"
    and "round_half_even (x / 2 powi (e - 52)) = r"
    and "real_of_int r * 2 powi (e - 52) = v"
  shows "fl x = v"
  using fl_eval [OF assms(1,2,3)] assms(4,5) by simp

section \<open>Chunking\<close>

lemma chunk_loop_concat:
  "concat (fst (chunk_loop m chunks cur cs segs)) @ snd (chunk_loop m chunks cur cs segs)
     = concat chunks @ cur @ segs"
  by (induction segs arbitrary: chunks cur cs) auto

lemma concat_close_last: "concat (close_last p) = concat (fst p) @ snd p"
  by (simp add: close_last_def)

lemma chunk_concat: "concat (chunk_segments_by_minutes segs minutes) = segs"
  by (cases segs)
     (simp_all add: chunk_segments_by_minutes_def concat_close_last chunk_loop_concat
        del: chunk_loop.simps)

lemma heads_apart_snoc:
  "heads_apart m (hs @ [a]) \<Longrightarrow> float_sub (seg_end b) (seg_start a) > m \<Longrightarrow> heads_apart m (hs @ [a, b])"
  by (induction m hs rule: heads_apart.induct) auto

lemma heads_apart_nth:
  "heads_apart m hs \<Longrightarrow> Suc i < length hs \<Longrightarrow> float_sub (seg_end (hs ! Suc i)) (seg_start (hs ! i)) > m"
proof (induction m hs arbitrary: i rule: heads_apart.induct)
  case (1 m a b rest)
  then show ?case by (cases i) auto
qed auto

lemma run_within_snoc:
  "run_within m cur \<Longrightarrow> cur \<noteq> [] \<Longrightarrow> float_sub (seg_end sg) (seg_start (hd cur)) \<le> m
     \<Longrightarrow> run_within m (cur @ [sg])"
  by (cases cur) (auto simp: run_within_def)

text \<open>
  The loop invariant: the closed chunks and the open one are non-empty runs within the
  limit, their first segments are apart, and \<open>chunk_start\<close> is the start of the open
  chunk's first segment (or, before the first iteration, of the first segment to come).
\<close>

lemma chunk_loop_inv:
  assumes "\<forall>c \<in> set chunks. c \<noteq> [] \<and> run_within m c"
    and "run_within m cur"
    and "heads_apart m (map hd (close_last (chunks, cur)))"
    and "cur \<noteq> [] \<longrightarrow> cs = seg_start (hd cur)"
    and "cur = [] \<longrightarrow> chunks = [] \<and> (segs \<noteq> [] \<longrightarrow> cs = seg_start (hd segs))"
  shows "(\<forall>c \<in> set (close_last (chunk_loop m chunks cur cs segs)). c \<noteq> [] \<and> run_within m c)
       \<and> heads_apart m (map hd (close_last (chunk_loop m chunks cur cs segs)))"
  using assms
proof (induction segs arbitrary: chunks cur cs)
  case Nil
  then show ?case by (auto simp: close_last_def)
next
  case (Cons sg rest)
  show ?case
  proof (cases "cur \<noteq> [] \<and> float_sub (seg_end sg) cs > m")
    case True
    have a: "\<forall>c \<in> set (chunks @ [cur]). c \<noteq> [] \<and> run_within m c"
      using Cons.prems True by auto
    have b: "run_within m [sg]" by (simp add: run_within_def)
    have c: "heads_apart m (map hd (close_last (chunks @ [cur], [sg])))"
      using Cons.prems True heads_apart_snoc[of m "map hd chunks" "hd cur" sg]
      by (simp add: close_last_def)
    show ?thesis
      using Cons.IH[of "chunks @ [cur]" "[sg]" "seg_start sg", OF a b c] True by simp
  next
    case False
    have a: "\<forall>c \<in> set chunks. c \<noteq> [] \<and> run_within m c"
      using Cons.prems by auto
    have b: "run_within m (cur @ [sg])"
    proof (cases "cur = []")
      case True
      then show ?thesis by (simp add: run_within_def)
    next
      case nonempty: False
      then show ?thesis using False Cons.prems run_within_snoc[of m cur sg] by auto
    qed
    have c: "heads_apart m (map hd (close_last (chunks, cur @ [sg])))"
      using Cons.prems by (cases "cur = []") (auto simp: close_last_def)
    have d: "cur @ [sg] \<noteq> [] \<longrightarrow> cs = seg_start (hd (cur @ [sg]))"
      using Cons.prems by (cases "cur = []") auto
    show ?thesis
      using Cons.IH[of chunks "cur @ [sg]" cs, OF a b c d] False by auto
  qed
qed

lemma chunk_runs:
  "(\<forall>c \<in> set (chunk_segments_by_minutes segs minutes).
       c \<noteq> [] \<and> run_within (real_of_int (minutes * 60)) c)
   \<and> heads_apart (real_of_int (minutes * 60)) (map hd (chunk_segments_by_minutes segs minutes))"
proof (cases segs)
  case Nil
  then show ?thesis by (simp add: chunk_segments_by_minutes_def)
next
  case (Cons sg rest)
  have eq: "chunk_segments_by_minutes (sg # rest) minutes =
      close_last (chunk_loop (real_of_int (minutes * 60)) [] [] (seg_start sg) (sg # rest))"
    by (simp add: chunk_segments_by_minutes_def)
  show ?thesis
    unfolding Cons eq
    by (rule chunk_loop_inv) (simp_all add: run_within_def close_last_def)
qed

lemma run_within_last:
  assumes "run_within m c" and "2 \<le> length c"
  shows "float_sub (seg_end (last c)) (seg_start (hd c)) \<le> m"
proof -
  from assms(2) obtain a b rest where c: "c = a # b # rest"
    by (cases c; cases "tl c") auto
  then have "last c \<in> set (tl c)" by simp
  with assms(1) show ?thesis by (simp add: run_within_def)
qed

text \<open>
  C2: on the three segments of the repository's own test, with a threshold of 5 minutes,
  the function returns three chunks of one segment each: the second segment ends 400
  seconds after the first one starts, more than the 300 allowed, so it opens a new chunk.
\<close>

theorem chunk_test_input_three_chunks:
  "chunk_segments_by_minutes [part1, part2, part3] 5 = [[part1], [part2], [part3]]
   \<and> length (chunk_segments_by_minutes [part1, part2, part3] 5) = 3
   \<and> chunk_segments_by_minutes [part1, part2, part3] 5 \<noteq> [[part1, part2], [part3]]"
  by (simp add: chunk_segments_by_minutes_def close_last_def part1_def part2_def part3_def
        float_sub_def fl_numeral)

text \<open>
  C3: for every segment list and threshold, the chunks are non-empty and their
  concatenation in order is the input. The difference is the one the loop computes, the
  float difference of the segment's end and the run's start: a segment that joins a run
  has it within the limit, a segment that opens a new run has it beyond the limit for the
  start of the run it closes, every run of two or more segments therefore meets the bound
  from its first start to its last end, and a single segment is emitted as its own chunk
  whatever its length.
\<close>

theorem chunking_partitions_input:
  "concat (chunk_segments_by_minutes segs minutes) = segs
   \<and> [] \<notin> set (chunk_segments_by_minutes segs minutes)
   \<and> (\<forall>c \<in> set (chunk_segments_by_minutes segs minutes). \<forall>sg \<in> set (tl c).
         float_sub (seg_end sg) (seg_start (hd c)) \<le> real_of_int (minutes * 60))
   \<and> (\<forall>i. Suc i < length (chunk_segments_by_minutes segs minutes) \<longrightarrow>
         float_sub (seg_end (hd (chunk_segments_by_minutes segs minutes ! Suc i)))
           (seg_start (hd (chunk_segments_by_minutes segs minutes ! i)))
         > real_of_int (minutes * 60))
   \<and> (\<forall>c \<in> set (chunk_segments_by_minutes segs minutes). 2 \<le> length c \<longrightarrow>
         float_sub (seg_end (last c)) (seg_start (hd c)) \<le> real_of_int (minutes * 60))
   \<and> chunk_segments_by_minutes [sg] minutes = [[sg]]"
proof -
  let ?cs = "chunk_segments_by_minutes segs minutes"
  let ?m = "real_of_int (minutes * 60)"
  have runs: "\<forall>c \<in> set ?cs. c \<noteq> [] \<and> run_within ?m c"
    and apart: "heads_apart ?m (map hd ?cs)"
    using chunk_runs[of segs minutes] by blast+
  have p1: "concat ?cs = segs" by (rule chunk_concat)
  have p2: "[] \<notin> set ?cs" using runs by blast
  have p3: "\<forall>c \<in> set ?cs. \<forall>sg \<in> set (tl c).
      float_sub (seg_end sg) (seg_start (hd c)) \<le> ?m"
    using runs by (auto simp: run_within_def)
  have p4: "\<forall>i. Suc i < length ?cs \<longrightarrow>
      float_sub (seg_end (hd (?cs ! Suc i))) (seg_start (hd (?cs ! i))) > ?m"
  proof (intro allI impI)
    fix i assume i: "Suc i < length ?cs"
    then have "float_sub (seg_end (map hd ?cs ! Suc i)) (seg_start (map hd ?cs ! i)) > ?m"
      using heads_apart_nth[OF apart, of i] by simp
    with i show "float_sub (seg_end (hd (?cs ! Suc i))) (seg_start (hd (?cs ! i))) > ?m"
      by simp
  qed
  have p5: "\<forall>c \<in> set ?cs. 2 \<le> length c \<longrightarrow>
      float_sub (seg_end (last c)) (seg_start (hd c)) \<le> ?m"
    using runs run_within_last by blast
  have p6: "chunk_segments_by_minutes [sg] minutes = [[sg]]"
    by (simp add: chunk_segments_by_minutes_def close_last_def)
  from p1 p2 p3 p4 p5 p6 show ?thesis by blast
qed

text \<open>
  The floats nearest to 0.1 and 600.1, and their float difference, which is 600 although
  the exact difference of the two floats is larger.
\<close>

lemma fl_tenth: "fl 0.1 = 3602879701896397 / 2 ^ 55"
proof -
  have "fl 0.1 = real_of_int (round_half_even (0.1 / 2 powi (- 4 - 52))) * 2 powi (- 4 - 52)"
    by (rule fl_eval) (simp_all add: power_int_minus_divide)
  also have "\<dots> = 3602879701896397 / 2 ^ 55"
    by (simp add: power_int_minus_divide round_half_even_def)
  finally show ?thesis .
qed

lemma fl_600_tenth: "fl 600.1 = 5278535422627021 / 2 ^ 43"
proof -
  have "fl 600.1 = real_of_int (round_half_even (600.1 / 2 powi (9 - 52))) * 2 powi (9 - 52)"
    by (rule fl_eval) (simp_all add: power_int_minus_divide)
  also have "\<dots> = 5278535422627021 / 2 ^ 43"
    by (simp add: power_int_minus_divide round_half_even_def)
  finally show ?thesis .
qed

lemma float_sub_tenths: "float_sub (fl 600.1) (fl 0.1) = 600"
proof -
  let ?x = "5278535422627021 / 2 ^ 43 - 3602879701896397 / 2 ^ 55 :: real"
  have "fl ?x = real_of_int (round_half_even (?x / 2 powi (9 - 52))) * 2 powi (9 - 52)"
    by (rule fl_eval) (simp_all add: power_int_minus_divide)
  also have "\<dots> = 600"
    by (simp add: power_int_minus_divide round_half_even_def)
  finally show ?thesis by (simp only: float_sub_def fl_tenth fl_600_tenth)
qed

theorem chunking_partitions_input_witness:
  "chunk_segments_by_minutes [part1, part2, part3] 10 = [[part1, part2], [part3]]
   \<and> concat (chunk_segments_by_minutes [part1, part2, part3] 10) = [part1, part2, part3]
   \<and> [part1, part2] \<in> set (chunk_segments_by_minutes [part1, part2, part3] 10)
   \<and> part2 \<in> set (tl [part1, part2])
   \<and> (2::nat) \<le> length [part1, part2]
   \<and> float_sub (seg_end part2) (seg_start part1) \<le> real_of_int (10 * 60)
   \<and> Suc 0 < length (chunk_segments_by_minutes [part1, part2, part3] 10)
   \<and> float_sub (seg_end part3) (seg_start part1) > real_of_int (10 * 60)
   \<and> chunk_segments_by_minutes [tenth_a, tenth_b] 10 = [[tenth_a, tenth_b]]
   \<and> float_sub (seg_end tenth_b) (seg_start tenth_a) \<le> real_of_int (10 * 60)
   \<and> seg_end tenth_b - seg_start tenth_a > real_of_int (10 * 60)"
proof -
  have ev: "chunk_segments_by_minutes [part1, part2, part3] 10 = [[part1, part2], [part3]]"
    by (simp add: chunk_segments_by_minutes_def close_last_def part1_def part2_def part3_def
          float_sub_def fl_numeral)
  have ev2: "chunk_segments_by_minutes [tenth_a, tenth_b] 10 = [[tenth_a, tenth_b]]"
    by (simp add: chunk_segments_by_minutes_def close_last_def tenth_a_def tenth_b_def
          float_sub_tenths)
  have ex: "seg_end tenth_b - seg_start tenth_a > real_of_int (10 * 60)"
    by (simp add: tenth_a_def tenth_b_def fl_tenth fl_600_tenth)
  have a: "float_sub (seg_end part2) (seg_start part1) \<le> real_of_int (10 * 60)
      \<and> float_sub (seg_end part3) (seg_start part1) > real_of_int (10 * 60)"
    using chunking_partitions_input [of "[part1, part2, part3]" 10 part1]
    unfolding ev
    by (simp add: part1_def part2_def part3_def)
  have b: "float_sub (seg_end tenth_b) (seg_start tenth_a) \<le> real_of_int (10 * 60)"
    using chunking_partitions_input [of "[tenth_a, tenth_b]" 10 tenth_a]
    unfolding ev2
    by simp
  show ?thesis
    using a b ex unfolding ev ev2 by simp
qed

section \<open>Subtitles\<close>

lemma replicate_numeral: "replicate (numeral v) x = x # replicate (pred_numeral v) x"
  by (simp add: numeral_eq_Suc)

lemmas clock_eval = srt_clock_def zero_pad_def str_nat.simps digit_char_def Let_def
  replicate_numeral

lemma srt_clock_0: "srt_clock 0 = ''00:00:00,000''"
  by (simp add: clock_eval)

lemma no_overflow:
  assumes "0 \<le> us" and "us \<le> 1000000 * 2 ^ 24"
  shows "\<not> \<bar>us div 86400000000\<bar> > (999999999 :: int)"
proof -
  have "us div 86400000000 \<le> (1000000 * 2 ^ 24) div 86400000000"
    using assms(2) by (intro zdiv_mono1) simp_all
  moreover have "0 \<le> us div 86400000000"
    using assms(1) by (simp add: pos_imp_zdiv_nonneg_iff)
  ultimately show ?thesis by simp
qed

text \<open>Whole seconds are written exactly.\<close>

lemma srt_total_ms_whole:
  assumes "0 \<le> n" and "n < 2 ^ 24"
  shows "srt_total_ms (real_of_int n) = Inr (n * 1000)"
proof -
  have b: "n * 1000000 \<le> 1000000 * 2 ^ 24" using assms(2) by simp
  have td: "timedelta (real_of_int n) = Inr (n * 1000000)"
    using no_overflow [of "n * 1000000"] assms(1) b
    by (simp add: timedelta_def py_int_def float_mul_def fl_0 round_half_even_of_int
          del: of_int_mult)
  have "\<bar>n\<bar> < 2 ^ 53" using assms by simp
  then have q: "int_truediv (n * 1000000) 1000000 = real_of_int n"
    by (simp add: int_truediv_def fl_of_int)
  have "\<bar>n * 1000\<bar> < 2 ^ 53" using assms by simp
  then have "fl (real_of_int (n * 1000)) = real_of_int (n * 1000)"
    by (rule fl_of_int)
  then have p: "float_mul (real_of_int n) 1000 = real_of_int (n * 1000)"
    by (simp add: float_mul_def)
  show ?thesis
    using assms(1) by (simp add: srt_total_ms_def td q p py_int_def del: of_int_mult)
qed

lemma format_srt_ts_0: "format_srt_ts 0 = Inr ''00:00:00,000''"
  using srt_total_ms_whole [of 0] by (simp add: format_srt_ts_def clock_eval)

lemma format_srt_ts_1: "format_srt_ts 1 = Inr ''00:00:01,000''"
  using srt_total_ms_whole [of 1] by (simp add: format_srt_ts_def clock_eval)

lemma format_srt_ts_2: "format_srt_ts 2 = Inr ''00:00:02,000''"
  using srt_total_ms_whole [of 2] by (simp add: format_srt_ts_def clock_eval)

lemma format_srt_ts_3: "format_srt_ts 3 = Inr ''00:00:03,000''"
  using srt_total_ms_whole [of 3] by (simp add: format_srt_ts_def clock_eval)

lemmas srt_eval = format_srt_ts_0 format_srt_ts_1 format_srt_ts_2 format_srt_ts_3
  str_nat.simps digit_char_def

lemma format_negative: "s < 0 \<Longrightarrow> format_srt_ts s = Inr ''00:00:00,000''"
  using srt_total_ms_whole [of 0] format_srt_ts_0
  by (simp add: format_srt_ts_def srt_total_ms_def)

lemma format_3661_25: "format_srt_ts 3661.25 = Inr ''01:01:01,250''"
proof -
  have a: "float_mul 1000000 (1 / 4) = 250000"
    by (simp add: float_mul_def fl_numeral)
  have td: "timedelta (14645 / 4) = Inr 3661250000"
    by (simp add: timedelta_def py_int_def a round_half_even_def)
  have "fl (real_of_int 14645 / 2 ^ 2) = real_of_int 14645 / 2 ^ 2"
    by (rule fl_dyadic) simp_all
  then have q: "int_truediv 3661250000 1000000 = 14645 / 4"
    by (simp add: int_truediv_def)
  have p: "float_mul (14645 / 4) 1000 = 3661250"
    by (simp add: float_mul_def fl_numeral)
  have "srt_total_ms (14645 / 4) = Inr 3661250"
    by (simp add: srt_total_ms_def td q p py_int_def)
  then show ?thesis by (simp add: format_srt_ts_def clock_eval)
qed

text \<open>
  The general bound: the float product that is cut to the millisecond count lies within a
  thousandth of a millisecond of the input's milliseconds, for inputs up to \<open>2^24\<close>
  seconds (194 days).
\<close>

lemma srt_total_ms_bounds:
  assumes "0 \<le> s" and "s < 2 ^ 24"
  shows "\<exists>m. srt_total_ms s = Inr m \<and> 1000 * s - 1001 / 1000 < real_of_int m
           \<and> real_of_int m < 1000 * s + 1 / 1000"
proof -
  define ip where "ip = \<lfloor>s\<rfloor>"
  define fr where "fr = s - real_of_int ip"
  define d where "d = float_mul 1000000 fr"
  define U where "U = round_half_even (real_of_int (ip * 1000000) + d)"
  define t where "t = int_truediv U 1000000"
  define y where "y = float_mul t 1000"
  have pi: "py_int s = ip" using assms(1) by (simp add: py_int_def ip_def)
  have fr: "0 \<le> fr" "fr < 1" unfolding fr_def ip_def by linarith+
  have e33: "(2::real) powi (20 - 53) = 1 / 8589934592"
    by (simp add: power_int_minus_divide)
  have e29: "(2::real) powi (24 - 53) = 1 / 536870912"
    by (simp add: power_int_minus_divide)
  have e19: "(2::real) powi (34 - 53) = 1 / 524288"
    by (simp add: power_int_minus_divide)
  have "\<bar>1000000 * fr\<bar> \<le> 2 powi 20" using fr by simp
  then have "\<bar>fl (1000000 * fr) - 1000000 * fr\<bar> \<le> 2 powi (20 - 53)"
    by (rule fl_error) simp
  then have d: "\<bar>d - 1000000 * fr\<bar> \<le> 1 / 8589934592"
    unfolding d_def float_mul_def e33 .
  have U: "\<bar>real_of_int U - (real_of_int (ip * 1000000) + d)\<bar> \<le> 1 / 2"
    unfolding U_def by (rule round_half_even_error)
  have s_eq: "1000000 * s = real_of_int (ip * 1000000) + 1000000 * fr"
    by (simp add: fr_def)
  have Us: "\<bar>real_of_int U - 1000000 * s\<bar> \<le> 1 / 2 + 1 / 8589934592"
    using d U s_eq by linarith
  have "- 1 < real_of_int U" using Us assms(1) by linarith
  then have U0: "0 \<le> U" by linarith
  have s24: "s < 16777216" using assms(2) by simp
  have "real_of_int U < 16777216000001" using Us s24 by linarith
  then have "U < 16777216000001" by linarith
  then have Ub: "U \<le> 1000000 * 2 ^ 24" by simp
  have td: "timedelta s = Inr U"
    using no_overflow [OF U0 Ub]
    by (simp add: timedelta_def pi Let_def fr_def [symmetric] d_def [symmetric]
          U_def [symmetric] del: of_int_mult)
  have "real_of_int U \<le> real_of_int (1000000 * 2 ^ 24)" using Ub by (simp only: of_int_le_iff)
  then have x2: "\<bar>real_of_int U / real_of_int 1000000\<bar> \<le> 2 powi 24"
    using U0 by simp
  then have "\<bar>fl (real_of_int U / real_of_int 1000000) - real_of_int U / real_of_int 1000000\<bar>
      \<le> 2 powi (24 - 53)"
    by (rule fl_error) simp
  then have t: "\<bar>t - real_of_int U / 1000000\<bar> \<le> 1 / 536870912"
    unfolding t_def int_truediv_def e29 by simp
  have x2': "\<bar>real_of_int U / 1000000\<bar> \<le> 16777216" using x2 by simp
  have tb: "\<bar>t\<bar> \<le> 16777217" using t x2' by linarith
  have "\<bar>t * 1000\<bar> = \<bar>t\<bar> * 1000" by (simp add: abs_mult)
  then have "\<bar>t * 1000\<bar> \<le> 17179869184" using tb by linarith
  then have "\<bar>t * 1000\<bar> \<le> 2 powi 34" by simp
  then have "\<bar>fl (t * 1000) - t * 1000\<bar> \<le> 2 powi (34 - 53)"
    by (rule fl_error) simp
  then have y: "\<bar>y - t * 1000\<bar> \<le> 1 / 524288"
    unfolding y_def float_mul_def e19 .
  have ys: "\<bar>y - 1000 * s\<bar> < 1 / 1000"
    using y t Us by linarith
  have tm: "srt_total_ms s = Inr (py_int y)"
    using assms(1) by (simp add: srt_total_ms_def td t_def y_def)
  have lo: "y - 1 < real_of_int (py_int y)"
    unfolding py_int_def by (simp; linarith)
  have hi: "real_of_int (py_int y) \<le> max y 0"
    unfolding py_int_def by (simp; linarith)
  have "1000 * s - 1001 / 1000 < real_of_int (py_int y)"
    using lo ys by linarith
  moreover have "real_of_int (py_int y) < 1000 * s + 1 / 1000"
    using hi ys assms(1) by linarith
  ultimately show ?thesis using tm by blast
qed

text \<open>
  The evaluation of \<open>srt_total_ms\<close> on a concrete input, one rounding at a time.
\<close>

lemma srt_total_ms_eval:
  assumes "0 \<le> s"
    and "py_int s = ip"
    and "fl (1000000 * (s - real_of_int ip)) = d"
    and "round_half_even (real_of_int (ip * 1000000) + d) = us"
    and "0 \<le> us" and "us \<le> 1000000 * 2 ^ 24"
    and "fl (real_of_int us / 1000000) = t"
    and "fl (t * 1000) = y"
    and "py_int y = m"
  shows "srt_total_ms s = Inr m"
proof -
  have td: "timedelta s = Inr us"
    using no_overflow [OF assms(5,6)] assms(2,3,4)
    by (simp add: timedelta_def Let_def float_mul_def del: of_int_mult)
  show ?thesis
    using assms(1,7,8,9) by (simp add: srt_total_ms_def td int_truediv_def float_mul_def)
qed

lemma total_ms_below_one: "srt_total_ms (1 - 1 / 2 ^ 30) = Inr 1000"
proof (rule srt_total_ms_eval
    [where ip = 0 and d = "16777215984375 / 2 ^ 24" and us = 1000000
       and t = "1" and y = "1000"])
  show "(0::real) \<le> 1 - 1 / 2 ^ 30" by simp
  show "py_int (1 - 1 / 2 ^ 30) = 0" by (simp add: py_int_def)
  show "fl (1000000 * (1 - 1 / 2 ^ 30 - real_of_int 0)) = 16777215984375 / 2 ^ 24"
    by (rule fl_eval_to [where e = "19" and r = "8589934584000000"])
       (simp_all add: power_int_minus_divide round_half_even_def)
  show "round_half_even (real_of_int (0 * 1000000) + (16777215984375 / 2 ^ 24)) = 1000000"
    by (simp add: round_half_even_def)
  show "(0::int) \<le> 1000000" by simp
  show "(1000000::int) \<le> 1000000 * 2 ^ 24" by simp
  show "fl (real_of_int 1000000 / 1000000) = 1"
    by (rule fl_eval_to [where e = "0" and r = "4503599627370496"])
       (simp_all add: power_int_minus_divide round_half_even_def)
  show "fl ((1) * 1000) = 1000"
    by (rule fl_eval_to [where e = "9" and r = "8796093022208000"])
       (simp_all add: power_int_minus_divide round_half_even_def)
  show "py_int (1000) = 1000" by (simp add: py_int_def)
qed

lemma total_ms_above_1001: "srt_total_ms (2254051613724113 / 2 ^ 51) = Inr 1000"
proof (rule srt_total_ms_eval
    [where ip = 1 and d = "4398046950908203 / 2 ^ 42" and us = 1001000
       and t = "2254051613498933 / 2 ^ 51" and y = "8804889115230207 / 2 ^ 43"])
  show "(0::real) \<le> 2254051613724113 / 2 ^ 51" by simp
  show "py_int (2254051613724113 / 2 ^ 51) = 1" by (simp add: py_int_def)
  show "fl (1000000 * (2254051613724113 / 2 ^ 51 - real_of_int 1)) = 4398046950908203 / 2 ^ 42"
    by (rule fl_eval_to [where e = "9" and r = "8796093901816406"])
       (simp_all add: power_int_minus_divide round_half_even_def)
  show "round_half_even (real_of_int (1 * 1000000) + (4398046950908203 / 2 ^ 42)) = 1001000"
    by (simp add: round_half_even_def)
  show "(0::int) \<le> 1001000" by simp
  show "(1001000::int) \<le> 1000000 * 2 ^ 24" by simp
  show "fl (real_of_int 1001000 / 1000000) = 2254051613498933 / 2 ^ 51"
    by (rule fl_eval_to [where e = "0" and r = "4508103226997866"])
       (simp_all add: power_int_minus_divide round_half_even_def)
  show "fl ((2254051613498933 / 2 ^ 51) * 1000) = 8804889115230207 / 2 ^ 43"
    by (rule fl_eval_to [where e = "9" and r = "8804889115230207"])
       (simp_all add: power_int_minus_divide round_half_even_def)
  show "py_int (8804889115230207 / 2 ^ 43) = 1000" by (simp add: py_int_def)
qed

lemma total_ms_64th: "srt_total_ms (1 / 64) = Inr 15"
proof (rule srt_total_ms_eval
    [where ip = 0 and d = "15625" and us = 15625
       and t = "1 / 2 ^ 6" and y = "125 / 2 ^ 3"])
  show "(0::real) \<le> 1 / 64" by simp
  show "py_int (1 / 64) = 0" by (simp add: py_int_def)
  show "fl (1000000 * (1 / 64 - real_of_int 0)) = 15625"
    by (rule fl_eval_to [where e = "13" and r = "8589934592000000"])
       (simp_all add: power_int_minus_divide round_half_even_def)
  show "round_half_even (real_of_int (0 * 1000000) + (15625)) = 15625"
    by (simp add: round_half_even_def)
  show "(0::int) \<le> 15625" by simp
  show "(15625::int) \<le> 1000000 * 2 ^ 24" by simp
  show "fl (real_of_int 15625 / 1000000) = 1 / 2 ^ 6"
    by (rule fl_eval_to [where e = "- 6" and r = "4503599627370496"])
       (simp_all add: power_int_minus_divide round_half_even_def)
  show "fl ((1 / 2 ^ 6) * 1000) = 125 / 2 ^ 3"
    by (rule fl_eval_to [where e = "3" and r = "8796093022208000"])
       (simp_all add: power_int_minus_divide round_half_even_def)
  show "py_int (125 / 2 ^ 3) = 15" by (simp add: py_int_def)
qed

lemma fl_4_02: "fl (4.02) = 1131529406376837 / 2 ^ 48"
proof -
  show "fl (4.02) = 1131529406376837 / 2 ^ 48"
    by (rule fl_eval_to [where e = "2" and r = "4526117625507348"])
       (simp_all add: power_int_minus_divide round_half_even_def)
qed

lemma total_ms_4_02: "srt_total_ms (1131529406376837 / 2 ^ 48) = Inr 4019"
proof (rule srt_total_ms_eval
    [where ip = 4 and d = "5497558138879883 / 2 ^ 38" and us = 4020000
       and t = "1131529406376837 / 2 ^ 48" and y = "8840073487319039 / 2 ^ 41"])
  show "(0::real) \<le> 1131529406376837 / 2 ^ 48" by simp
  show "py_int (1131529406376837 / 2 ^ 48) = 4" by (simp add: py_int_def)
  show "fl (1000000 * (1131529406376837 / 2 ^ 48 - real_of_int 4)) = 5497558138879883 / 2 ^ 38"
    by (rule fl_eval_to [where e = "14" and r = "5497558138879883"])
       (simp_all add: power_int_minus_divide round_half_even_def)
  show "round_half_even (real_of_int (4 * 1000000) + (5497558138879883 / 2 ^ 38)) = 4020000"
    by (simp add: round_half_even_def)
  show "(0::int) \<le> 4020000" by simp
  show "(4020000::int) \<le> 1000000 * 2 ^ 24" by simp
  show "fl (real_of_int 4020000 / 1000000) = 1131529406376837 / 2 ^ 48"
    by (rule fl_eval_to [where e = "2" and r = "4526117625507348"])
       (simp_all add: power_int_minus_divide round_half_even_def)
  show "fl ((1131529406376837 / 2 ^ 48) * 1000) = 8840073487319039 / 2 ^ 41"
    by (rule fl_eval_to [where e = "11" and r = "8840073487319039"])
       (simp_all add: power_int_minus_divide round_half_even_def)
  show "py_int (8840073487319039 / 2 ^ 41) = 4019" by (simp add: py_int_def)
qed


text \<open>
  C8, as the code has it: 3661.25 seconds is written \<open>01:01:01,250\<close>, and every negative
  input is written \<open>00:00:00,000\<close>. The milliseconds are not in general those of the
  input cut toward zero: \<open>timedelta\<close> rounds to microseconds, and the float product of
  the seconds with 1000 is cut to an integer. For every input from 0 up to \<open>2^24\<close>
  seconds the millisecond count written lies less than a thousandth above the input's
  milliseconds and less than 1.001 below, so that it is the input's milliseconds cut
  toward zero or one of the two neighbours of that number. Both neighbours occur: the
  float \<open>2254051613724113 / 2^51\<close>, just above 1.001, is written with 1000 milliseconds
  (the one above is the input of the counterexample below). The float nearest to 4.02 is
  written \<open>00:00:04,019\<close>.
\<close>

theorem format_srt_ts_within_one_millisecond:
  "format_srt_ts 3661.25 = Inr ''01:01:01,250''
   \<and> (\<forall>s<0. format_srt_ts s = Inr ''00:00:00,000'')
   \<and> (\<forall>s. 0 \<le> s \<and> s < 2 ^ 24 \<longrightarrow>
         (\<exists>m. srt_total_ms s = Inr m \<and> format_srt_ts s = Inr (srt_clock m)
            \<and> 1000 * s - 1001 / 1000 < real_of_int m \<and> real_of_int m < 1000 * s + 1 / 1000
            \<and> \<lfloor>1000 * s\<rfloor> - 1 \<le> m \<and> m \<le> \<lfloor>1000 * s\<rfloor> + 1))
   \<and> format_srt_ts (2254051613724113 / 2 ^ 51) = Inr ''00:00:01,000''
   \<and> \<lfloor>1000 * (2254051613724113 / 2 ^ 51 :: real)\<rfloor> = 1001
   \<and> format_srt_ts (fl 4.02) = Inr ''00:00:04,019''"
proof -
  have near: "\<exists>m. srt_total_ms s = Inr m \<and> format_srt_ts s = Inr (srt_clock m)
            \<and> 1000 * s - 1001 / 1000 < real_of_int m \<and> real_of_int m < 1000 * s + 1 / 1000
            \<and> \<lfloor>1000 * s\<rfloor> - 1 \<le> m \<and> m \<le> \<lfloor>1000 * s\<rfloor> + 1"
    if h: "0 \<le> s \<and> s < 2 ^ 24" for s
  proof -
    obtain m where m: "srt_total_ms s = Inr m" "1000 * s - 1001 / 1000 < real_of_int m"
        "real_of_int m < 1000 * s + 1 / 1000"
      using srt_total_ms_bounds [of s] h by blast
    have f: "format_srt_ts s = Inr (srt_clock m)"
      by (simp add: format_srt_ts_def m(1))
    have "real_of_int \<lfloor>1000 * s\<rfloor> - 1 < real_of_int m + 1" using m(2) by linarith
    then have lo: "\<lfloor>1000 * s\<rfloor> - 1 \<le> m" by linarith
    have "real_of_int m < real_of_int \<lfloor>1000 * s\<rfloor> + 2" using m(3) by linarith
    then have hi: "m \<le> \<lfloor>1000 * s\<rfloor> + 1" by linarith
    show ?thesis using m f lo hi by blast
  qed
  have low: "format_srt_ts (2254051613724113 / 2 ^ 51) = Inr ''00:00:01,000''"
    by (simp only: format_srt_ts_def total_ms_above_1001) (simp add: clock_eval)
  have tr: "\<lfloor>1000 * (2254051613724113 / 2 ^ 51 :: real)\<rfloor> = 1001"
    by simp
  have four: "format_srt_ts (fl 4.02) = Inr ''00:00:04,019''"
    by (simp only: format_srt_ts_def fl_4_02 total_ms_4_02) (simp add: clock_eval)
  have neg: "\<forall>s<0. format_srt_ts s = Inr ''00:00:00,000''"
    using format_negative by blast
  have gen: "\<forall>s. 0 \<le> s \<and> s < 2 ^ 24 \<longrightarrow>
         (\<exists>m. srt_total_ms s = Inr m \<and> format_srt_ts s = Inr (srt_clock m)
            \<and> 1000 * s - 1001 / 1000 < real_of_int m \<and> real_of_int m < 1000 * s + 1 / 1000
            \<and> \<lfloor>1000 * s\<rfloor> - 1 \<le> m \<and> m \<le> \<lfloor>1000 * s\<rfloor> + 1)"
    using near by blast
  show ?thesis
    by (intro conjI) (rule format_3661_25, rule neg, rule gen, rule low, rule tr, rule four)
qed

theorem format_srt_ts_within_one_millisecond_witness:
  "(- 5 :: real) < 0 \<and> format_srt_ts (- 5) = Inr ''00:00:00,000''
   \<and> (0 :: real) \<le> 1 / 64 \<and> (1 / 64 :: real) < 2 ^ 24
   \<and> srt_total_ms (1 / 64) = Inr 15
   \<and> format_srt_ts (1 / 64) = Inr ''00:00:00,015''
   \<and> \<lfloor>1000 * (1 / 64 :: real)\<rfloor> - 1 \<le> 15 \<and> 15 \<le> \<lfloor>1000 * (1 / 64 :: real)\<rfloor> + 1"
proof -
  note main = format_srt_ts_within_one_millisecond
  have r: "(0 :: real) \<le> 1 / 64 \<and> (1 / 64 :: real) < 2 ^ 24"
    by simp
  have neg: "format_srt_ts (- 5) = Inr ''00:00:00,000''"
    using main [THEN conjunct2, THEN conjunct1, rule_format, of "- 5"] by simp
  obtain m where m: "srt_total_ms (1 / 64) = Inr m" "format_srt_ts (1 / 64) = Inr (srt_clock m)"
      "\<lfloor>1000 * (1 / 64 :: real)\<rfloor> - 1 \<le> m" "m \<le> \<lfloor>1000 * (1 / 64 :: real)\<rfloor> + 1"
    using main [THEN conjunct2, THEN conjunct2, THEN conjunct1, rule_format, OF r] by blast
  have m15: "m = 15" using m(1) total_ms_64th by simp
  have c: "srt_clock 15 = ''00:00:00,015''"
    by (simp add: clock_eval)
  have f: "format_srt_ts (1 / 64) = Inr ''00:00:00,015''"
    using m(2) unfolding m15 c .
  show ?thesis
    using neg r total_ms_64th f m(3,4) unfolding m15 by (intro conjI) simp_all
qed

text \<open>
  C8 as stated fails: \<open>1 - 2^-30\<close> seconds is 999.999999 milliseconds, so dropping the
  fraction would give \<open>00:00:00,999\<close>; \<open>timedelta\<close> first rounds the value to the
  nearest microsecond, which is one full second, and the result is \<open>00:00:01,000\<close>.
\<close>

theorem format_srt_ts_rounds_up_counterexample:
  "format_srt_ts (1 - 1 / 2 ^ 30) = Inr ''00:00:01,000''
   \<and> srt_clock \<lfloor>(1 - 1 / 2 ^ 30 :: real) * 1000\<rfloor> = ''00:00:00,999''"
proof -
  have a: "format_srt_ts (1 - 1 / 2 ^ 30) = Inr ''00:00:01,000''"
    by (simp only: format_srt_ts_def total_ms_below_one) (simp add: clock_eval)
  have b: "srt_clock \<lfloor>(1 - 1 / 2 ^ 30 :: real) * 1000\<rfloor> = ''00:00:00,999''"
    by (simp add: clock_eval)
  from a b show ?thesis by simp
qed

lemma srt_lines_blank:
  "\<forall>sg \<in> set segs. strip (seg_text sg) = [] \<Longrightarrow> srt_lines idx segs = Inr []"
  by (induction segs arbitrary: idx) simp_all

lemma strip_Nil: "strip [] = []"
  by (simp add: strip_def)

text \<open>
  C5: on two spoken segments with a blank one between them, \<open>build_srt\<close> writes two
  blocks, numbered 1 and 3: the blank segment is skipped but has used up the number 2.
\<close>

theorem build_srt_skipped_segment_uses_number:
  "strip (seg_text seg_a) \<noteq> [] \<and> strip (seg_text seg_blank) = [] \<and> strip (seg_text seg_b) \<noteq> []
   \<and> build_srt [seg_a, seg_blank, seg_b] =
       Inr (''1\<newline>00:00:00,000 --> 00:00:01,000\<newline>a\<newline>\<newline>''
            @ ''3\<newline>00:00:02,000 --> 00:00:03,000\<newline>b\<newline>'')"
  by (simp add: build_srt_def seg_a_def seg_blank_def seg_b_def strip_def isspace_def srt_eval)

text \<open>
  C10: for a non-empty segment list whose texts are all blank after trimming,
  \<open>build_srt\<close> returns the single newline; and the empty string is returned for the empty
  list only.
\<close>

theorem build_srt_all_blank:
  "(segs \<noteq> [] \<and> (\<forall>sg \<in> set segs. strip (seg_text sg) = [])
      \<longrightarrow> build_srt segs = Inr ''\<newline>'')
   \<and> (build_srt segs = Inr [] \<longleftrightarrow> segs = [])"
proof -
  have a: "segs \<noteq> [] \<and> (\<forall>sg \<in> set segs. strip (seg_text sg) = [])
      \<longrightarrow> build_srt segs = Inr ''\<newline>''"
    by (simp add: build_srt_def srt_lines_blank strip_Nil)
  have b: "build_srt segs = Inr [] \<longleftrightarrow> segs = []"
    by (auto simp: build_srt_def split: sum.splits)
  from a b show ?thesis by blast
qed

theorem build_srt_all_blank_witness:
  "[seg_blank, seg_blank] \<noteq> [] \<and> strip (seg_text seg_blank) = []
   \<and> build_srt [seg_blank, seg_blank] = Inr ''\<newline>''
   \<and> build_srt [seg_blank, seg_blank] \<noteq> Inr []"
proof -
  have h: "\<forall>sg \<in> set [seg_blank, seg_blank]. strip (seg_text sg) = []"
    by (simp add: seg_blank_def strip_def isspace_def)
  show ?thesis
    using h build_srt_all_blank [of "[seg_blank, seg_blank]"] by simp
qed

section \<open>Blank transcripts and the fallback chunk\<close>

lemma ask_model_prompts:
  "prompts (snd (ask_model env w p)) = prompts w @ [p]"
  by (simp add: ask_model_def Let_def split: sum.splits)

lemma map_chunks_prompts:
  "\<exists>more. prompts (snd (map_chunks env w idx chunks)) = prompts w @ more"
proof (induction chunks arbitrary: w idx)
  case Nil
  show ?case by simp
next
  case (Cons chunk rest)
  obtain r w1 where a: "ask_model env w (chunk_prompt env idx chunk) = (r, w1)"
    by (cases "ask_model env w (chunk_prompt env idx chunk)")
  have p1: "prompts w1 = prompts w @ [chunk_prompt env idx chunk]"
    using ask_model_prompts [of env w "chunk_prompt env idx chunk"] a by simp
  show ?case
  proof (cases r)
    case (Inl e)
    then show ?thesis using a p1 by simp
  next
    case (Inr reply)
    obtain more where m: "prompts (snd (map_chunks env w1 (idx + 1) rest)) = prompts w1 @ more"
      using Cons.IH [of w1 "idx + 1"] by blast
    obtain r2 w2 where b: "map_chunks env w1 (idx + 1) rest = (r2, w2)"
      by (cases "map_chunks env w1 (idx + 1) rest")
    have "prompts (snd (map_chunks env w idx (chunk # rest))) = prompts w2"
      using a b Inr by (cases r2) simp_all
    then show ?thesis using m b p1 by simp
  qed
qed

lemma summarize_chunks_first_prompt:
  "\<exists>more. prompts (snd (summarize_chunks env w (chunk # rest)))
           = prompts w @ chunk_prompt env 1 chunk # more"
proof -
  obtain r w1 where a: "ask_model env w (chunk_prompt env 1 chunk) = (r, w1)"
    by (cases "ask_model env w (chunk_prompt env 1 chunk)")
  have p1: "prompts w1 = prompts w @ [chunk_prompt env 1 chunk]"
    using ask_model_prompts [of env w "chunk_prompt env 1 chunk"] a by simp
  obtain more where m: "prompts (snd (map_chunks env w1 2 rest)) = prompts w1 @ more"
    using map_chunks_prompts [of env w1 2 rest] by blast
  obtain r2 w2 where b: "map_chunks env w1 2 rest = (r2, w2)"
    by (cases "map_chunks env w1 2 rest")
  have p2: "prompts w2 = prompts w @ chunk_prompt env 1 chunk # more"
    using m b p1 by simp
  show ?thesis
  proof (cases r)
    case (Inl e)
    then show ?thesis using a p1 by (simp add: summarize_chunks_def del: One_nat_def)
  next
    case Inr1: (Inr reply)
    show ?thesis
    proof (cases r2)
      case (Inl e)
      then show ?thesis using a b Inr1 p2 by (simp add: summarize_chunks_def del: One_nat_def)
    next
      case Inr2: (Inr replies)
      let ?merged = "join ''\<newline>\<newline>'' (reply # replies)"
      obtain r3 w3 where c: "ask_model env w2 (summary_instructions env @ ?merged) = (r3, w3)"
        by (cases "ask_model env w2 (summary_instructions env @ ?merged)")
      have p3: "prompts w3 = prompts w2 @ [summary_instructions env @ ?merged]"
        using ask_model_prompts [of env w2 "summary_instructions env @ ?merged"] c by simp
      obtain r4 w4 where d: "ask_model env w3 (outline_instructions env @ ?merged) = (r4, w4)"
        by (cases "ask_model env w3 (outline_instructions env @ ?merged)")
      have p4: "prompts w4 = prompts w3 @ [outline_instructions env @ ?merged]"
        using ask_model_prompts [of env w3 "outline_instructions env @ ?merged"] d by simp
      have main: "map_chunks env w 1 (chunk # rest) = (Inr (reply # replies), w2)"
        using a b Inr1 Inr2 by (simp del: One_nat_def)
      show ?thesis
      proof (cases r3)
        case (Inl e)
        then show ?thesis using main c p2 p3
          by (simp add: summarize_chunks_def Let_def del: map_chunks.simps)
      next
        case Inr3: (Inr final_summary)
        show ?thesis using main c d Inr3 p2 p3 p4
          by (cases r4) (simp_all add: summarize_chunks_def Let_def del: map_chunks.simps)
      qed
    qed
  qed
qed

lemma join_segment_text_single:
  "strip t \<noteq> [] \<Longrightarrow>
     join_segment_text [\<lparr>seg_start = a, seg_end = b, seg_text = t\<rparr>] = strip t"
  by (simp add: join_segment_text_def)

lemma str_nat_1: "str_nat 1 = ''1''"
  by (simp add: str_nat.simps digit_char_def)

text \<open>
  C7. When the transcript is blank (empty or only whitespace), summarisation returns the
  placeholder texts ``No speech detected.'' and ``No lecture outline available.'' and
  leaves the world as it was, so the summarisation engine is given no prompt. When the
  transcript is not blank but chunking yields no chunks, the whole transcript is
  summarised as a single chunk: the result is that of the map and reduce steps run on
  the one chunk holding the one segment whose text is the transcript, and the first
  prompt given to the engine is the chunk prompt number 1 over the stripped transcript.
\<close>

theorem summarize_blank_and_fallback:
  "(strip transcript = [] \<longrightarrow>
      summarize_with_map_reduce env w transcript segments
        = (Inr (''No speech detected.'', ''No lecture outline available.''), w))
   \<and> (strip transcript \<noteq> [] \<and> chunk_segments_by_minutes segments 10 = [] \<longrightarrow>
        summarize_with_map_reduce env w transcript segments
          = summarize_chunks env w [[\<lparr>seg_start = 0, seg_end = 0, seg_text = transcript\<rparr>]]
        \<and> (\<exists>more. prompts (snd (summarize_with_map_reduce env w transcript segments))
              = prompts w
                @ (map_instructions env @ ''Chunk #1:\<newline>'' @ strip transcript) # more))"
proof (intro conjI impI)
  assume "strip transcript = []"
  then show "summarize_with_map_reduce env w transcript segments
        = (Inr (''No speech detected.'', ''No lecture outline available.''), w)"
    by (simp add: summarize_with_map_reduce_def)
next
  assume h: "strip transcript \<noteq> [] \<and> chunk_segments_by_minutes segments 10 = []"
  then show eq: "summarize_with_map_reduce env w transcript segments
          = summarize_chunks env w [[\<lparr>seg_start = 0, seg_end = 0, seg_text = transcript\<rparr>]]"
    by (simp add: summarize_with_map_reduce_def Let_def)
  have cp: "chunk_prompt env 1 [\<lparr>seg_start = 0, seg_end = 0, seg_text = transcript\<rparr>]
              = map_instructions env @ ''Chunk #1:\<newline>'' @ strip transcript"
    using h by (simp add: chunk_prompt_def join_segment_text_single str_nat_1 del: One_nat_def)
  show "\<exists>more. prompts (snd (summarize_with_map_reduce env w transcript segments))
              = prompts w
                @ (map_instructions env @ ''Chunk #1:\<newline>'' @ strip transcript) # more"
    using summarize_chunks_first_prompt
            [of env w "[\<lparr>seg_start = 0, seg_end = 0, seg_text = transcript\<rparr>]" "[]"]
    unfolding eq cp .
qed

theorem summarize_blank_and_fallback_witness:
  "strip ''  '' = []
   \<and> summarize_with_map_reduce sample_env sample_world ''  '' [seg_a]
       = (Inr (''No speech detected.'', ''No lecture outline available.''), sample_world)
   \<and> strip ''hello there'' \<noteq> []
   \<and> chunk_segments_by_minutes [] 10 = []
   \<and> summarize_with_map_reduce sample_env sample_world ''hello there'' []
       = summarize_chunks sample_env sample_world
           [[\<lparr>seg_start = 0, seg_end = 0, seg_text = ''hello there''\<rparr>]]
   \<and> (\<exists>more. prompts (snd (summarize_with_map_reduce sample_env sample_world ''hello there'' []))
         = prompts sample_world
           @ (map_instructions sample_env @ ''Chunk #1:\<newline>'' @ strip ''hello there'') # more)"
proof -
  have a: "strip ''  '' = []"
    by (simp add: strip_def isspace_def)
  have b: "strip ''hello there'' \<noteq> []"
    by (simp add: strip_def isspace_def)
  have c: "chunk_segments_by_minutes [] 10 = []"
    by (simp add: chunk_segments_by_minutes_def)
  show ?thesis
    using summarize_blank_and_fallback [of "''  ''" sample_env sample_world "[seg_a]"]
          summarize_blank_and_fallback [of "''hello there''" sample_env sample_world "[]"]
          a b c
    by blast
qed


section \<open>Rejection of a video that is too long\<close>

lemma contains_prefix: "contains needle (needle @ rest)"
  by (cases "needle @ rest") (simp, metis append_eq_conv_conj contains.simps(2))

lemma contains_infix: "contains needle (before @ needle @ rest)"
proof (induction before)
  case Nil
  show ?case using contains_prefix by simp
next
  case (Cons c before)
  then show ?case by simp
qed

lemma too_long_message_limit:
  "contains (str_int (max_video_minutes env)) (too_long_message env duration)"
  unfolding too_long_message_def
  using contains_infix
          [of "str_int (max_video_minutes env)"
              "''Video is too long ('' @ str_int (duration div 60) @ '' min). Maximum allowed is ''"
              "'' min.''"]
  by simp

lemma skip_payload_id: "payload_task_id (skip_payload tid) = Inr tid"
  by (simp add: payload_task_id_def skip_payload_def)

lemma skip_payload_skip: "get_truthy (skip_payload tid) ''skip''"
  by (simp add: get_truthy_def skip_payload_def)

lemma skipped_stages:
  "run_stage finalize_task env
     (run_stage summarize_transcript_task env
        (run_stage transcribe_audio_task env (Inr (skip_payload tid), w)))
   = (Inr (skip_payload tid), w)"
  by (simp add: run_stage_def transcribe_audio_task_def summarize_transcript_task_def
        finalize_task_def skip_payload_id skip_payload_skip)

lemma download_audio_too_long:
  "fetch_video_info env url = Inr info \<Longrightarrow> max_video_seconds env < video_duration info \<Longrightarrow>
     download_audio env url = Inl (Exn VideoTooLongError (too_long_message env (video_duration info)))"
  by (simp add: download_audio_def Let_def)

lemma download_audio_task_rejects:
  assumes "tasks (db w) tid = Some t"
      and "status t \<noteq> ''completed''"
      and "download_audio env (video_url t) = Inl (Exn c msg)"
      and "c \<in> {VideoTooLongError, YouTubeForbiddenError, YouTubeInfoError}"
  shows "download_audio_task env w tid =
           (Inr (skip_payload tid),
            w\<lparr>db := (db w)\<lparr>tasks := (tasks (db w))(tid \<mapsto> t\<lparr>status := ''failed'', error := Some msg\<rparr>)\<rparr>,
              posts := posts w @ [Message (user_id t) (''Task '' @ str_int tid @ '' rejected: '' @ msg)]\<rparr>)"
proof (cases "status t = ''failed''")
  case True
  have s1: "set_status (db w) tid ''downloading'' None None None = (Some t, db w)"
    using assms(1) True by (simp add: set_status_def TERMINAL_STATUSES_def)
  have s2: "set_status (db w) tid ''failed'' (Some msg) None None
              = (Some (t\<lparr>status := ''failed'', error := Some msg\<rparr>),
                 (db w)\<lparr>tasks := (tasks (db w))(tid \<mapsto> t\<lparr>status := ''failed'', error := Some msg\<rparr>)\<rparr>)"
    using assms(1) by (simp add: set_status_def TERMINAL_STATUSES_def Let_def)
  show ?thesis
    using assms s1 s2
    by (simp add: download_audio_task_def get_task_def Let_def is_rejection_def exn_class_of_def
          exn_message_def send_message_def post_def)
next
  case False
  let ?t1 = "t\<lparr>status := ''downloading''\<rparr>"
  let ?s1 = "(db w)\<lparr>tasks := (tasks (db w))(tid \<mapsto> ?t1)\<rparr>"
  have s1: "set_status (db w) tid ''downloading'' None None None = (Some ?t1, ?s1)"
    using assms(1,2) False by (simp add: set_status_def TERMINAL_STATUSES_def Let_def)
  have s2: "set_status ?s1 tid ''failed'' (Some msg) None None
              = (Some (t\<lparr>status := ''failed'', error := Some msg\<rparr>),
                 (db w)\<lparr>tasks := (tasks (db w))(tid \<mapsto> t\<lparr>status := ''failed'', error := Some msg\<rparr>)\<rparr>)"
    by (simp add: set_status_def TERMINAL_STATUSES_def Let_def)
  show ?thesis
    using assms s1 s2
    by (simp add: download_audio_task_def get_task_def Let_def is_rejection_def exn_class_of_def
          exn_message_def send_message_def post_def)
qed

text \<open>
  C6. Let the stored task \<open>tid\<close> not be completed already (stage 1 fetches the media of
  no other task), and let the metadata fetched for its video give a duration, in whole
  seconds, above the configured maximum. Then \<open>download_audio\<close> raises
  \<open>VideoTooLongError\<close>, which is not of a retried class and which stage 1 catches: the
  stage returns the payload marked \<open>skip\<close>; the task is stored with status \<open>failed\<close> and,
  as error, the message that names the limit in minutes; one message, the rejection with
  that text, is sent to the user of the task; and the whole chain ends in that same world
  with the skip payload, the speech engine and the summarisation engine having been given
  nothing.
\<close>

theorem too_long_video_is_rejected:
  assumes "tasks (db w) tid = Some t"
      and "status t \<noteq> ''completed''"
      and "fetch_video_info env (video_url t) = Inr info"
      and "max_video_seconds env < video_duration info"
      and "msg = too_long_message env (video_duration info)"
      and "w' = w\<lparr>db := (db w)\<lparr>tasks := (tasks (db w))(tid \<mapsto> t\<lparr>status := ''failed'', error := Some msg\<rparr>)\<rparr>,
                  posts := posts w @ [Message (user_id t) (''Task '' @ str_int tid @ '' rejected: '' @ msg)]\<rparr>"
  shows "download_audio env (video_url t) = Inl (Exn VideoTooLongError msg)
       \<and> \<not> autoretry_for (Exn VideoTooLongError msg)
       \<and> download_audio_task env w tid = (Inr (skip_payload tid), w')
       \<and> run_chain env w tid = (Inr (skip_payload tid), w')
       \<and> contains (str_int (max_video_minutes env)) msg
       \<and> transcribed w' = transcribed w
       \<and> prompts w' = prompts w"
proof -
  have da: "download_audio env (video_url t) = Inl (Exn VideoTooLongError msg)"
    using download_audio_too_long [OF assms(3,4)] assms(5) by simp
  have stage: "download_audio_task env w tid = (Inr (skip_payload tid), w')"
    using download_audio_task_rejects [OF assms(1,2) da] assms(6) by simp
  have chain: "run_chain env w tid = (Inr (skip_payload tid), w')"
    by (simp add: run_chain_def stage skipped_stages)
  have lim: "contains (str_int (max_video_minutes env)) msg"
    using too_long_message_limit assms(5) by simp
  have retry: "\<not> autoretry_for (Exn VideoTooLongError msg)"
    by (simp add: autoretry_for_def exn_class_of_def)
  show ?thesis
    using da retry stage chain lim assms(6) by simp
qed

theorem too_long_video_is_rejected_witness:
  "tasks (db sample_world) 3 = Some created_task
   \<and> status created_task \<noteq> ''completed''
   \<and> fetch_video_info sample_env (video_url created_task) = Inr \<lparr>info_duration = Some 7200.5\<rparr>
   \<and> max_video_seconds sample_env < video_duration \<lparr>info_duration = Some 7200.5\<rparr>
   \<and> download_audio sample_env (video_url created_task)
       = Inl (Exn VideoTooLongError ''Video is too long (120 min). Maximum allowed is 60 min.'')
   \<and> download_audio_task sample_env sample_world 3
       = (Inr (skip_payload 3),
          sample_world\<lparr>db := (db sample_world)\<lparr>tasks := (tasks (db sample_world))
                 (3 \<mapsto> created_task\<lparr>status := ''failed'',
                      error := Some ''Video is too long (120 min). Maximum allowed is 60 min.''\<rparr>)\<rparr>,
             posts := [Message 7
               ''Task 3 rejected: Video is too long (120 min). Maximum allowed is 60 min.'']\<rparr>)
   \<and> run_chain sample_env sample_world 3 = download_audio_task sample_env sample_world 3
   \<and> contains ''60'' ''Video is too long (120 min). Maximum allowed is 60 min.''"
proof -
  have a: "tasks (db sample_world) 3 = Some created_task"
    by (simp add: sample_world_def)
  have b: "status created_task \<noteq> ''completed''"
    by (simp add: created_task_def)
  have c: "fetch_video_info sample_env (video_url created_task) = Inr \<lparr>info_duration = Some 7200.5\<rparr>"
    by (simp add: sample_env_def)
  have d: "video_duration \<lparr>info_duration = Some 7200.5\<rparr> = 7200"
    by (simp add: video_duration_def py_int_def)
  have e: "max_video_seconds sample_env = 3600" "max_video_minutes sample_env = 60"
    by (simp_all add: max_video_seconds_def sample_env_def)
  have m: "too_long_message sample_env 7200 = ''Video is too long (120 min). Maximum allowed is 60 min.''"
    by (simp add: too_long_message_def e str_int_def str_nat.simps digit_char_def)
  have s: "str_int 3 = ''3''" "str_int 60 = ''60''"
    by (simp_all add: str_int_def str_nat.simps digit_char_def)
  have u: "user_id created_task = 7" "posts sample_world = []"
    by (simp_all add: created_task_def sample_world_def)
  have f: "max_video_seconds sample_env < video_duration \<lparr>info_duration = Some 7200.5\<rparr>"
    unfolding d e by simp
  show ?thesis
    using too_long_video_is_rejected [OF a b c f refl refl, unfolded d m s u e] a b c f
    by simp
qed


section \<open>What a stage returns\<close>

lemma download_audio_task_returns:
  "fst (download_audio_task env w tid) = Inr out \<Longrightarrow>
     out = skip_payload tid
     \<or> (\<exists>path d. out = [''task_id'' \<mapsto> PInt tid, ''source_path'' \<mapsto> PStr path,
                          ''duration_sec'' \<mapsto> PInt d])"
  by (auto simp add: download_audio_task_def Let_def
        split: option.splits if_splits sum.splits prod.splits)

lemma transcribe_audio_task_returns:
  "fst (transcribe_audio_task env w p) = Inr out \<Longrightarrow>
     (if get_truthy p ''skip'' then out = p
      else \<exists>t l sg. out = p(''transcript_text'' \<mapsto> PStr t, ''language'' \<mapsto> PStr l,
                            ''segments'' \<mapsto> PSegments sg))"
  by (auto simp add: transcribe_audio_task_def Let_def
        split: option.splits if_splits sum.splits prod.splits pyval.splits)

lemma summarize_transcript_task_returns:
  "fst (summarize_transcript_task env w p) = Inr out \<Longrightarrow>
     (if get_truthy p ''skip'' then out = p
      else \<exists>s ol. out = p(''summary'' \<mapsto> PStr s, ''outline'' \<mapsto> PStr ol))"
  by (auto simp add: summarize_transcript_task_def Let_def
        split: option.splits if_splits sum.splits prod.splits pyval.splits)

lemma finalize_task_returns:
  "fst (finalize_task env w p) = Inr out \<Longrightarrow>
     (if get_truthy p ''skip'' then out = p
      else \<exists>tid. payload_task_id p = Inr tid
             \<and> out = [''task_id'' \<mapsto> PInt tid, ''status'' \<mapsto> PStr ''completed''])"
  by (auto simp add: finalize_task_def Let_def
        split: option.splits if_splits sum.splits prod.splits)

text \<open>
  C4 as stated fails at the last stage: on a payload that carries a summary and is not
  marked \<open>skip\<close>, \<open>finalize_task\<close> returns a new dictionary with the two keys \<open>task_id\<close>
  and \<open>status\<close>, in which the summary is gone.
\<close>

theorem finalize_task_drops_fields_counterexample:
  "\<not> get_truthy full_payload ''skip''
   \<and> full_payload ''summary'' = Some (PStr ''s'')
   \<and> fst (finalize_task sample_env sample_world full_payload)
       = Inr [''task_id'' \<mapsto> PInt 3, ''status'' \<mapsto> PStr ''completed'']
   \<and> [''task_id'' \<mapsto> PInt 3, ''status'' \<mapsto> PStr ''completed''] ''summary'' = None"
  by (simp add: finalize_task_def full_payload_def get_truthy_def payload_task_id_def
        payload_segments_def text_column_def build_srt_def seg_a_def seg_b_def strip_def
        isspace_def srt_eval upsert_result_def set_status_def TERMINAL_STATUSES_def
        sample_world_def sample_env_def created_task_def post_def result_files_def
        send_message_def Let_def)

text \<open>
  C4, amended. Stage 1 takes the task id, and when it returns, it returns either the
  payload marked \<open>skip\<close> or the payload made of the task id, the source path and the
  duration. Stages 2 and 3, when they return, return a payload marked \<open>skip\<close> as it is,
  and otherwise the input payload with the stage's own fields set (transcript text,
  language and segments after stage 2; summary and outline after stage 3), every other
  field of the input being kept. Stage 4, when it returns, returns a payload marked
  \<open>skip\<close> as it is, and otherwise only the task id and the status \<open>completed\<close>.
\<close>

theorem stage_payload_frame:
  "(fst (download_audio_task env w tid) = Inr out1 \<longrightarrow>
      out1 = skip_payload tid
      \<or> (\<exists>path d. out1 = [''task_id'' \<mapsto> PInt tid, ''source_path'' \<mapsto> PStr path,
                            ''duration_sec'' \<mapsto> PInt d]))
   \<and> (fst (transcribe_audio_task env w p2) = Inr out2 \<longrightarrow>
        (if get_truthy p2 ''skip'' then out2 = p2
         else \<exists>t l sg. out2 = p2(''transcript_text'' \<mapsto> PStr t, ''language'' \<mapsto> PStr l,
                                 ''segments'' \<mapsto> PSegments sg)))
   \<and> (fst (summarize_transcript_task env w p3) = Inr out3 \<longrightarrow>
        (if get_truthy p3 ''skip'' then out3 = p3
         else \<exists>s ol. out3 = p3(''summary'' \<mapsto> PStr s, ''outline'' \<mapsto> PStr ol)))
   \<and> (fst (finalize_task env w p4) = Inr out4 \<longrightarrow>
        (if get_truthy p4 ''skip'' then out4 = p4
         else \<exists>i. payload_task_id p4 = Inr i
                \<and> out4 = [''task_id'' \<mapsto> PInt i, ''status'' \<mapsto> PStr ''completed'']))"
  using download_audio_task_returns [of env w tid out1]
        transcribe_audio_task_returns [of env w p2 out2]
        summarize_transcript_task_returns [of env w p3 out3]
        finalize_task_returns [of env w p4 out4]
  by blast

theorem stage_payload_frame_witness:
  "fst (download_audio_task sample_env sample_world 3) = Inr (skip_payload 3)
   \<and> \<not> get_truthy source_payload ''skip''
   \<and> fst (transcribe_audio_task sample_env sample_world source_payload)
       = Inr (source_payload(''transcript_text'' \<mapsto> PStr ''a b'', ''language'' \<mapsto> PStr ''en'',
                ''segments'' \<mapsto> PSegments [seg_a, seg_blank\<lparr>seg_text := []\<rparr>, seg_b\<lparr>seg_text := ''b''\<rparr>]))
   \<and> \<not> get_truthy blank_payload ''skip''
   \<and> fst (summarize_transcript_task sample_env sample_world blank_payload)
       = Inr (blank_payload(''summary'' \<mapsto> PStr ''No speech detected.'',
                ''outline'' \<mapsto> PStr ''No lecture outline available.''))
   \<and> get_truthy (skip_payload 3) ''skip''
   \<and> fst (finalize_task sample_env sample_world (skip_payload 3)) = Inr (skip_payload 3)
   \<and> (skip_payload 3 = skip_payload 3
      \<or> (\<exists>path d. skip_payload 3 = [''task_id'' \<mapsto> PInt 3, ''source_path'' \<mapsto> PStr path,
                            ''duration_sec'' \<mapsto> PInt d]))
   \<and> (\<exists>t l sg. source_payload(''transcript_text'' \<mapsto> PStr ''a b'', ''language'' \<mapsto> PStr ''en'',
                ''segments'' \<mapsto> PSegments [seg_a, seg_blank\<lparr>seg_text := []\<rparr>, seg_b\<lparr>seg_text := ''b''\<rparr>])
         = source_payload(''transcript_text'' \<mapsto> PStr t, ''language'' \<mapsto> PStr l,
                ''segments'' \<mapsto> PSegments sg))
   \<and> (\<exists>s ol. blank_payload(''summary'' \<mapsto> PStr ''No speech detected.'',
                ''outline'' \<mapsto> PStr ''No lecture outline available.'')
         = blank_payload(''summary'' \<mapsto> PStr s, ''outline'' \<mapsto> PStr ol))"
proof -
  have a: "fst (download_audio_task sample_env sample_world 3) = Inr (skip_payload 3)"
    by (simp add: download_audio_task_def get_task_def sample_world_def created_task_def
          set_status_def TERMINAL_STATUSES_def Let_def download_audio_def sample_env_def
          video_duration_def py_int_def max_video_seconds_def is_rejection_def
          exn_class_of_def)
  have b: "\<not> get_truthy source_payload ''skip''"
    by (simp add: get_truthy_def source_payload_def)
  have c: "fst (transcribe_audio_task sample_env sample_world source_payload)
       = Inr (source_payload(''transcript_text'' \<mapsto> PStr ''a b'', ''language'' \<mapsto> PStr ''en'',
                ''segments'' \<mapsto> PSegments [seg_a, seg_blank\<lparr>seg_text := []\<rparr>, seg_b\<lparr>seg_text := ''b''\<rparr>]))"
    by (simp add: transcribe_audio_task_def payload_task_id_def get_truthy_def
          source_payload_def Let_def convert_to_wav_16k_mono_def transcribe_audio_file_def
          sample_env_def seg_a_def seg_blank_def seg_b_def strip_def isspace_def)
  have d: "\<not> get_truthy blank_payload ''skip''"
    by (simp add: get_truthy_def blank_payload_def)
  have e: "fst (summarize_transcript_task sample_env sample_world blank_payload)
       = Inr (blank_payload(''summary'' \<mapsto> PStr ''No speech detected.'',
                ''outline'' \<mapsto> PStr ''No lecture outline available.''))"
    by (simp add: summarize_transcript_task_def payload_task_id_def get_truthy_def
          blank_payload_def Let_def payload_segments_def summarize_with_map_reduce_def
          strip_def isspace_def)
  have f: "get_truthy (skip_payload 3) ''skip''"
    by (simp add: get_truthy_def skip_payload_def)
  have g: "fst (finalize_task sample_env sample_world (skip_payload 3)) = Inr (skip_payload 3)"
    by (simp add: finalize_task_def payload_task_id_def get_truthy_def skip_payload_def)
  show ?thesis
    using stage_payload_frame
            [of sample_env sample_world 3 "skip_payload 3"
                source_payload
                "source_payload(''transcript_text'' \<mapsto> PStr ''a b'', ''language'' \<mapsto> PStr ''en'',
                   ''segments'' \<mapsto> PSegments [seg_a, seg_blank\<lparr>seg_text := []\<rparr>, seg_b\<lparr>seg_text := ''b''\<rparr>])"
                blank_payload
                "blank_payload(''summary'' \<mapsto> PStr ''No speech detected.'',
                   ''outline'' \<mapsto> PStr ''No lecture outline available.'')"
                "skip_payload 3" "skip_payload 3"]
          a b c d e f g
    by presburger
qed


end
